theory Spec2Isabelle
  imports Main "HOL-Library.AList" "HOL-Library.Sublist"
begin

section \<open>Values, exceptions and the library interface\<close>

text \<open>
  The program is \<^verbatim>\<open>src/main.py\<close>: an HTTP front (class
  \<^verbatim>\<open>SimpleHTTPRequestHandler\<close>), a socket listener
  (\<^verbatim>\<open>run_socket_server\<close>, \<^verbatim>\<open>handle_socket_connection\<close>) and the start-up
  code that runs both as processes.

  A Python \<^verbatim>\<open>bytes\<close> value is a list of 8-bit characters. A Python \<^verbatim>\<open>str\<close> is
  represented by its UTF-8 encoding, so that \<^verbatim>\<open>s.encode("utf-8")\<close> is the identity
  and a \<^verbatim>\<open>str\<close> is empty exactly when its representation is.
\<close>

type_synonym bytes = string
type_synonym str = string

text \<open>The exception classes that the code and its library calls can raise. All of them
  are subclasses of \<^verbatim>\<open>Exception\<close>, so \<^verbatim>\<open>except Exception\<close> catches each.\<close>

datatype exn =
    TypeError
  | ValueError
  | IndexError
  | UnicodeDecodeError
  | JSONDecodeError
  | RecursionError
  | OverflowError
  | MemoryError
  | FileNotFoundError
  | IsADirectoryError
  | NotADirectoryError
  | PermissionError
  | OSError
  | ConnectionRefusedError
  | ConnectionResetError
  | ConnectionFailure
  | ServerSelectionTimeoutError
  | OperationFailure

text \<open>\<^verbatim>\<open>except ConnectionFailure\<close>: pymongo's
  \<^verbatim>\<open>ServerSelectionTimeoutError\<close> derives from \<^verbatim>\<open>AutoReconnect\<close>, which derives from
  \<^verbatim>\<open>ConnectionFailure\<close>.\<close>

fun isinstance_ConnectionFailure :: "exn \<Rightarrow> bool" where
  "isinstance_ConnectionFailure ConnectionFailure = True"
| "isinstance_ConnectionFailure ServerSelectionTimeoutError = True"
| "isinstance_ConnectionFailure _ = False"

text \<open>Python values as far as the program handles them: what \<^verbatim>\<open>json.loads\<close> returns,
  plus the \<^verbatim>\<open>datetime\<close> that the listener stores. A \<^verbatim>\<open>dict\<close> is an association list
  in insertion order with distinct keys; a float is kept as its literal.\<close>

datatype pyval =
    PDict "(str \<times> pyval) list"
  | PList "pyval list"
  | PStr str
  | PInt int
  | PFloat str
  | PBool bool
  | PNone
  | PDatetime nat

type_synonym pydict = "(str \<times> pyval) list"

text \<open>Truth value of \<^verbatim>\<open>d.get(k)\<close>, as \<^verbatim>\<open>not\<close> tests it: a missing key gives
  \<^verbatim>\<open>None\<close>.\<close>

fun truthy :: "pyval option \<Rightarrow> bool" where
  "truthy None = False"
| "truthy (Some (PDict d)) = (d \<noteq> [])"
| "truthy (Some (PList l)) = (l \<noteq> [])"
| "truthy (Some (PStr s)) = (s \<noteq> [])"
| "truthy (Some (PInt i)) = (i \<noteq> 0)"
| "truthy (Some (PFloat f)) = True"
| "truthy (Some (PBool b)) = b"
| "truthy (Some PNone) = False"
| "truthy (Some (PDatetime t)) = True"

text \<open>The functions of the standard library that the program calls. They are not code of
  the repository, so the handlers take them as a parameter; \<open>stdlib\<close> below gives an
  executable instance for texts of ASCII characters and well-formed UTF-8.\<close>

record lib =
  urlparse_path :: "str \<Rightarrow> exn + str"
  parse_qs :: "str \<Rightarrow> (str \<times> str list) list"
  int_of_str :: "str \<Rightarrow> exn + int"
  decode :: "bytes \<Rightarrow> exn + str"
  json_dumps :: "pyval \<Rightarrow> exn + str"
  json_loads :: "str \<Rightarrow> exn + pyval"
  guess_type :: "str \<Rightarrow> str option"

text \<open>The configuration module \<^verbatim>\<open>config.py\<close> supplies these constants.\<close>

record config =
  HTTP_HOST :: str
  HTTP_PORT :: nat
  SOCKET_HOST :: str
  SOCKET_PORT :: nat
  MONGO_URI :: str
  DB_NAME :: str
  COLLECTION_NAME :: str

section \<open>The file system\<close>

text \<open>Files are addressed by absolute locations (lists of directory entries from the
  root). \<^verbatim>\<open>open(path, "rb")\<close> walks the path from the working directory, entry by
  entry, as the operating system does: \<^verbatim>\<open>..\<close> moves to the parent, and an entry name
  of more than 255 bytes is refused with a plain \<^verbatim>\<open>OSError\<close> (name too long). Before
  that, \<^verbatim>\<open>open\<close> itself raises \<^verbatim>\<open>ValueError\<close> for a path with a null character, and
  the system refuses a path of 4096 bytes or more, again with \<^verbatim>\<open>OSError\<close>.\<close>

datatype node = File bytes | Directory | Missing | Denied

record filesys =
  cwd :: "str list"
  node_at :: "str list \<Rightarrow> node"

fun split_on :: "char \<Rightarrow> string \<Rightarrow> string list" where
  "split_on c [] = [[]]"
| "split_on c (x # xs) =
     (if x = c then [] # split_on c xs
      else (case split_on c xs of [] \<Rightarrow> [[x]] | w # ws \<Rightarrow> (x # w) # ws))"

fun walk :: "filesys \<Rightarrow> str list \<Rightarrow> str list \<Rightarrow> exn + str list" where
  "walk fs cur [] = Inr cur"
| "walk fs cur (c # cs) =
     (case node_at fs cur of
        Directory \<Rightarrow>
          (if c = [] \<or> c = ''.'' then walk fs cur cs
           else if c = ''..'' then walk fs (butlast cur) cs
           else if 255 < length c then Inl OSError
           else walk fs (cur @ [c]) cs)
      | File b \<Rightarrow> Inl NotADirectoryError
      | Missing \<Rightarrow> Inl FileNotFoundError
      | Denied \<Rightarrow> Inl PermissionError)"

definition resolve :: "filesys \<Rightarrow> str \<Rightarrow> exn + str list" where
  "resolve fs p =
     (if CHR 0x00 \<in> set p then Inl ValueError
      else if p = [] then Inl FileNotFoundError
      else if 4096 \<le> length p then Inl OSError
      else walk fs (if hd p = CHR ''/'' then [] else cwd fs) (split_on CHR ''/'' p))"

definition open_rb :: "filesys \<Rightarrow> str \<Rightarrow> exn + bytes" where
  "open_rb fs p =
     (case resolve fs p of
        Inl e \<Rightarrow> Inl e
      | Inr loc \<Rightarrow>
          (case node_at fs loc of
             File b \<Rightarrow> Inr b
           | Directory \<Rightarrow> Inl IsADirectoryError
           | Missing \<Rightarrow> Inl FileNotFoundError
           | Denied \<Rightarrow> Inl PermissionError))"

text \<open>The static-asset root is the directory \<^verbatim>\<open>static\<close> of the working directory.\<close>

definition static_root :: "filesys \<Rightarrow> str list" where
  "static_root fs = cwd fs @ [''static'']"

definition within_static_root :: "filesys \<Rightarrow> str list \<Rightarrow> bool" where
  "within_static_root fs loc = prefix (static_root fs) loc"

section \<open>An executable instance of the library\<close>

definition ord :: "char \<Rightarrow> nat" where
  "ord c = of_char c"

text \<open>The character with a given code below 256, bit by bit.\<close>

definition chr :: "nat \<Rightarrow> char" where
  "chr n = Char (odd n) (odd (n div 2)) (odd (n div 4)) (odd (n div 8))
                (odd (n div 16)) (odd (n div 32)) (odd (n div 64)) (odd (n div 128))"

definition quote :: char where
  "quote = CHR 0x22"

definition backslash :: char where
  "backslash = CHR 0x5C"

definition is_ws :: "char \<Rightarrow> bool" where
  "is_ws c = (c = CHR '' '' \<or> c = CHR 0x09 \<or> c = CHR 0x0A \<or> c = CHR 0x0D)"

definition is_digit :: "char \<Rightarrow> bool" where
  "is_digit c = (48 \<le> ord c \<and> ord c \<le> 57)"

definition skip_ws :: "string \<Rightarrow> string" where
  "skip_ws s = dropWhile is_ws s"

definition hexval :: "char \<Rightarrow> nat option" where
  "hexval c =
     (let n = ord c in
      if 48 \<le> n \<and> n \<le> 57 then Some (n - 48)
      else if 65 \<le> n \<and> n \<le> 70 then Some (n - 55)
      else if 97 \<le> n \<and> n \<le> 102 then Some (n - 87)
      else None)"

subsection \<open>UTF-8\<close>

text \<open>The ranges that the bytes after a lead byte must lie in, for the well-formed byte
  sequences of the Unicode standard (no overlong forms, no surrogates, nothing above
  U+10FFFF).\<close>

definition lead :: "nat \<Rightarrow> (nat \<times> nat) list option" where
  "lead n =
     (if n < 0x80 then Some []
      else if 0xC2 \<le> n \<and> n \<le> 0xDF then Some [(0x80, 0xBF)]
      else if n = 0xE0 then Some [(0xA0, 0xBF), (0x80, 0xBF)]
      else if n = 0xED then Some [(0x80, 0x9F), (0x80, 0xBF)]
      else if 0xE1 \<le> n \<and> n \<le> 0xEF then Some [(0x80, 0xBF), (0x80, 0xBF)]
      else if n = 0xF0 then Some [(0x90, 0xBF), (0x80, 0xBF), (0x80, 0xBF)]
      else if 0xF1 \<le> n \<and> n \<le> 0xF3 then Some [(0x80, 0xBF), (0x80, 0xBF), (0x80, 0xBF)]
      else if n = 0xF4 then Some [(0x80, 0x8F), (0x80, 0xBF), (0x80, 0xBF)]
      else None)"

fun utf8_ok :: "(nat \<times> nat) list \<Rightarrow> bytes \<Rightarrow> bool" where
  "utf8_ok [] [] = True"
| "utf8_ok (r # rs) [] = False"
| "utf8_ok [] (b # bs) = (case lead (ord b) of None \<Rightarrow> False | Some rs \<Rightarrow> utf8_ok rs bs)"
| "utf8_ok ((lo, hi) # rs) (b # bs) = (lo \<le> ord b \<and> ord b \<le> hi \<and> utf8_ok rs bs)"

text \<open>\<^verbatim>\<open>bytes.decode("utf-8")\<close>\<close>

definition decode_std :: "bytes \<Rightarrow> exn + str" where
  "decode_std b = (if utf8_ok [] b then Inr b else Inl UnicodeDecodeError)"

text \<open>The code points of a well-formed byte sequence, and the bytes of a code point.\<close>

fun code_points :: "nat \<Rightarrow> nat \<Rightarrow> bytes \<Rightarrow> nat list" where
  "code_points k acc [] = []"
| "code_points k acc (b # bs) =
     (let n = ord b in
      if k = 0 then
        (if n < 0x80 then n # code_points 0 0 bs
         else if n < 0xE0 then code_points 1 (n - 0xC0) bs
         else if n < 0xF0 then code_points 2 (n - 0xE0) bs
         else code_points 3 (n - 0xF0) bs)
      else if k = 1 then (acc * 64 + (n - 0x80)) # code_points 0 0 bs
      else code_points (k - 1) (acc * 64 + (n - 0x80)) bs)"

definition utf8_of :: "nat \<Rightarrow> bytes" where
  "utf8_of cp =
     (if cp < 0x80 then [chr cp]
      else if cp < 0x800 then [chr (0xC0 + cp div 64), chr (0x80 + cp mod 64)]
      else if cp < 0x10000 then
        [chr (0xE0 + cp div 4096), chr (0x80 + cp div 64 mod 64), chr (0x80 + cp mod 64)]
      else
        [chr (0xF0 + cp div 262144), chr (0x80 + cp div 4096 mod 64),
         chr (0x80 + cp div 64 mod 64), chr (0x80 + cp mod 64)])"

subsection \<open>\<^verbatim>\<open>urllib.parse\<close> and \<^verbatim>\<open>int\<close>\<close>

text \<open>\<^verbatim>\<open>urlparse(url).path\<close> for a request target that starts with a slash (such a
  target has no scheme): a network location after two slashes, then the fragment, the query
  and the parameters of the last segment are cut off.\<close>

definition urlparse_path_std :: "str \<Rightarrow> exn + str" where
  "urlparse_path_std url =
     (let delim = (\<lambda>c. c = CHR ''/'' \<or> c = CHR ''?'' \<or> c = CHR ''#'');
          netloc = (if take 2 url = ''//'' then takeWhile (\<lambda>c. \<not> delim c) (drop 2 url) else []);
          rest = (if take 2 url = ''//'' then dropWhile (\<lambda>c. \<not> delim c) (drop 2 url) else url)
      in if (CHR ''['' \<in> set netloc) \<noteq> (CHR '']'' \<in> set netloc) then Inl ValueError
         else
           (let p = takeWhile (\<lambda>c. c \<noteq> CHR ''?'') (takeWhile (\<lambda>c. c \<noteq> CHR ''#'') rest);
                seg = rev (takeWhile (\<lambda>c. c \<noteq> CHR ''/'') (rev p));
                pre = take (length p - length seg) p
            in Inr (pre @ takeWhile (\<lambda>c. c \<noteq> CHR '';'') seg)))"

text \<open>\<^verbatim>\<open>unquote\<close> after \<^verbatim>\<open>replace('+', ' ')\<close>: a percent sign with two hexadecimal
  digits becomes that byte. (Where the bytes so obtained are not well-formed UTF-8 the
  library substitutes U+FFFD; that substitution is not reproduced.)\<close>

fun unquote :: "str \<Rightarrow> str" where
  "unquote (c # h1 # h2 # rest) =
     (case (if c = CHR ''%'' then hexval h1 else None, hexval h2) of
        (Some a, Some b) \<Rightarrow> chr (16 * a + b) # unquote rest
      | _ \<Rightarrow> c # unquote (h1 # h2 # rest))"
| "unquote s = s"

definition unquote_plus :: "str \<Rightarrow> str" where
  "unquote_plus s = unquote (map (\<lambda>c. if c = CHR ''+'' then CHR '' '' else c) s)"

text \<open>\<^verbatim>\<open>parse_qsl\<close> with its defaults: fields are separated by \<^verbatim>\<open>&\<close>; a field without
  \<^verbatim>\<open>=\<close> or with a blank value is dropped.\<close>

definition parse_qsl :: "str \<Rightarrow> (str \<times> str) list" where
  "parse_qsl qs =
     concat (map (\<lambda>name_value.
        let name = takeWhile (\<lambda>c. c \<noteq> CHR ''='') name_value;
            val = drop (Suc (length name)) name_value
        in if CHR ''='' \<in> set name_value \<and> val \<noteq> []
           then [(unquote_plus name, unquote_plus val)] else [])
       (split_on CHR ''&'' qs))"

text \<open>\<^verbatim>\<open>parse_qs\<close>: the values of each name, in order of appearance.\<close>

definition add_param :: "(str \<times> str list) list \<Rightarrow> str \<times> str \<Rightarrow> (str \<times> str list) list" where
  "add_param d nv =
     (case map_of d (fst nv) of
        None \<Rightarrow> d @ [(fst nv, [snd nv])]
      | Some vs \<Rightarrow> AList.update (fst nv) (vs @ [snd nv]) d)"

definition parse_qs_std :: "str \<Rightarrow> (str \<times> str list) list" where
  "parse_qs_std qs = foldl add_param [] (parse_qsl qs)"

text \<open>\<^verbatim>\<open>int(s)\<close> for a string of ASCII characters: surrounding white space, a sign, and
  decimal digits, with single underscores allowed between digits.\<close>

definition py_space :: "char \<Rightarrow> bool" where
  "py_space c = (c = CHR '' '' \<or> (9 \<le> ord c \<and> ord c \<le> 13) \<or> (28 \<le> ord c \<and> ord c \<le> 31))"

definition strip :: "string \<Rightarrow> string" where
  "strip s = rev (dropWhile py_space (rev (dropWhile py_space s)))"

fun digits_ok :: "string \<Rightarrow> bool" where
  "digits_ok [] = False"
| "digits_ok [c] = is_digit c"
| "digits_ok (c # u # cs) =
     (is_digit c \<and> (if u = CHR ''_'' then digits_ok cs else digits_ok (u # cs)))"

definition nat_of_digits :: "string \<Rightarrow> nat" where
  "nat_of_digits s = foldl (\<lambda>a c. 10 * a + (ord c - 48)) 0 (filter is_digit s)"

definition int_of_str_std :: "str \<Rightarrow> exn + int" where
  "int_of_str_std s =
     (let t = strip s;
          neg = (take 1 t = ''-'');
          ds = (if take 1 t = ''-'' \<or> take 1 t = ''+'' then drop 1 t else t)
      in if digits_ok ds \<and> length ds \<le> 4300
         then Inr (if neg then - int (nat_of_digits ds) else int (nat_of_digits ds))
         else Inl ValueError)"

subsection \<open>\<^verbatim>\<open>json\<close>\<close>

text \<open>\<^verbatim>\<open>json.dumps\<close> with its defaults (\<^verbatim>\<open>ensure_ascii\<close>, separators \<^verbatim>\<open>", "\<close> and
  \<^verbatim>\<open>": "\<close>): every character outside the printable ASCII range is written as an
  escape, a character beyond U+FFFF as a surrogate pair.\<close>

definition hexdigit :: "nat \<Rightarrow> char" where
  "hexdigit k = ''0123456789abcdef'' ! k"

definition u_escape :: "nat \<Rightarrow> string" where
  "u_escape n =
     [backslash, CHR ''u'', hexdigit (n div 4096), hexdigit (n div 256 mod 16),
      hexdigit (n div 16 mod 16), hexdigit (n mod 16)]"

definition escape_cp :: "nat \<Rightarrow> string" where
  "escape_cp n =
     (if n = 0x22 then [backslash, quote]
      else if n = 0x5C then [backslash, backslash]
      else if n = 0x0A then [backslash, CHR ''n'']
      else if n = 0x0D then [backslash, CHR ''r'']
      else if n = 0x09 then [backslash, CHR ''t'']
      else if n = 0x08 then [backslash, CHR ''b'']
      else if n = 0x0C then [backslash, CHR ''f'']
      else if 0x20 \<le> n \<and> n \<le> 0x7E then [chr n]
      else if n < 0x10000 then u_escape n
      else u_escape (0xD800 + (n - 0x10000) div 1024) @ u_escape (0xDC00 + (n - 0x10000) mod 1024))"

definition encode_string :: "str \<Rightarrow> string" where
  "encode_string s = quote # concat (map escape_cp (code_points 0 0 s)) @ [quote]"

fun show_nat :: "nat \<Rightarrow> string" where
  "show_nat n = (if n < 10 then [hexdigit n] else show_nat (n div 10) @ [hexdigit (n mod 10)])"

declare show_nat.simps [simp del]

definition show_int :: "int \<Rightarrow> string" where
  "show_int i = (if i < 0 then CHR ''-'' # show_nat (nat (- i)) else show_nat (nat i))"

fun join :: "string \<Rightarrow> string list \<Rightarrow> string" where
  "join sep [] = []"
| "join sep [x] = x"
| "join sep (x # y # ys) = x @ sep @ join sep (y # ys)"

fun dumps :: "pyval \<Rightarrow> exn + str"
  and dumps_list :: "pyval list \<Rightarrow> exn + str list"
  and dumps_dict :: "(str \<times> pyval) list \<Rightarrow> exn + str list" where
  "dumps (PDict d) =
     (case dumps_dict d of Inl e \<Rightarrow> Inl e | Inr ms \<Rightarrow> Inr (''{'' @ join '', '' ms @ ''}''))"
| "dumps (PList l) =
     (case dumps_list l of Inl e \<Rightarrow> Inl e | Inr xs \<Rightarrow> Inr (''['' @ join '', '' xs @ '']''))"
| "dumps (PStr s) = Inr (encode_string s)"
| "dumps (PInt i) = Inr (show_int i)"
| "dumps (PFloat f) = Inr f"
| "dumps (PBool b) = Inr (if b then ''true'' else ''false'')"
| "dumps PNone = Inr ''null''"
| "dumps (PDatetime t) = Inl TypeError"
| "dumps_list [] = Inr []"
| "dumps_list (v # vs) =
     (case dumps v of Inl e \<Rightarrow> Inl e
      | Inr x \<Rightarrow> (case dumps_list vs of Inl e \<Rightarrow> Inl e | Inr xs \<Rightarrow> Inr (x # xs)))"
| "dumps_dict [] = Inr []"
| "dumps_dict (kv # kvs) =
     (case dumps (snd kv) of Inl e \<Rightarrow> Inl e
      | Inr x \<Rightarrow>
          (case dumps_dict kvs of Inl e \<Rightarrow> Inl e
           | Inr xs \<Rightarrow> Inr ((encode_string (fst kv) @ '': '' @ x) # xs)))"

text \<open>\<^verbatim>\<open>json.loads\<close>. A string literal, read from behind its opening quote: the escapes
  of the JSON grammar, four hexadecimal digits after \<^verbatim>\<open>\u\<close>, a surrogate pair joined
  into one character, no control character unescaped. (A surrogate without its partner
  is kept in the three-byte form.)\<close>

definition hex4 :: "string \<Rightarrow> nat option" where
  "hex4 s =
     (case map hexval (take 4 s) of
        [Some a, Some b, Some c, Some d] \<Rightarrow> Some (4096 * a + 256 * b + 16 * c + d)
      | _ \<Rightarrow> None)"

text \<open>The text behind \<^verbatim>\<open>\u\<close>: the code point and the number of characters used.\<close>

definition decode_uXXXX :: "string \<Rightarrow> (nat \<times> nat) option" where
  "decode_uXXXX s =
     (case hex4 s of
        None \<Rightarrow> None
      | Some uni \<Rightarrow>
          if 0xD800 \<le> uni \<and> uni \<le> 0xDBFF \<and> take 2 (drop 4 s) = [backslash, CHR ''u'']
          then (case hex4 (drop 6 s) of
                  None \<Rightarrow> None
                | Some uni2 \<Rightarrow>
                    if 0xDC00 \<le> uni2 \<and> uni2 \<le> 0xDFFF
                    then Some (0x10000 + (uni - 0xD800) * 1024 + (uni2 - 0xDC00), 10)
                    else Some (uni, 4))
          else Some (uni, 4))"

definition simple_escape :: "char \<Rightarrow> char option" where
  "simple_escape e =
     (if e = quote then Some quote
      else if e = backslash then Some backslash
      else if e = CHR ''/'' then Some CHR ''/''
      else if e = CHR ''b'' then Some (CHR 0x08)
      else if e = CHR ''f'' then Some (CHR 0x0C)
      else if e = CHR ''n'' then Some (CHR 0x0A)
      else if e = CHR ''r'' then Some (CHR 0x0D)
      else if e = CHR ''t'' then Some (CHR 0x09)
      else None)"

definition prepend :: "string \<Rightarrow> (str \<times> string) option \<Rightarrow> (str \<times> string) option" where
  "prepend p r = (case r of None \<Rightarrow> None | Some (s, rest) \<Rightarrow> Some (p @ s, rest))"

function scanstring :: "string \<Rightarrow> (str \<times> string) option" where
  "scanstring [] = None"
| "scanstring (c # cs) =
     (if c = quote then Some ([], cs)
      else if c = backslash then
        (case cs of
           [] \<Rightarrow> None
         | e # es \<Rightarrow>
             if e = CHR ''u'' then
               (case decode_uXXXX es of
                  None \<Rightarrow> None
                | Some (cp, n) \<Rightarrow> prepend (utf8_of cp) (scanstring (drop n es)))
             else
               (case simple_escape e of
                  None \<Rightarrow> None
                | Some x \<Rightarrow> prepend [x] (scanstring es)))
      else if ord c < 0x20 then None
      else prepend [c] (scanstring cs))"
  by pat_completeness auto
termination
  by (relation "measure length") auto

text \<open>A number, by the pattern of the decoder: an integer part without leading zeros, then
  optionally a fraction and an exponent, each only if complete.\<close>

definition scan_number :: "string \<Rightarrow> (pyval \<times> string) option" where
  "scan_number s =
     (let neg = (take 1 s = ''-'');
          s1 = (if neg then drop 1 s else s);
          ip = (if take 1 s1 = ''0'' then ''0'' else takeWhile is_digit s1);
          s2 = drop (length ip) s1;
          fd = (if take 1 s2 = ''.'' then takeWhile is_digit (drop 1 s2) else []);
          frac = (if fd = [] then [] else CHR ''.'' # fd);
          s3 = drop (length frac) s2;
          sg = (if take 1 (drop 1 s3) = ''+'' \<or> take 1 (drop 1 s3) = ''-''
                then take 1 (drop 1 s3) else []);
          ed = (if take 1 s3 = ''e'' \<or> take 1 s3 = ''E''
                then takeWhile is_digit (drop (Suc (length sg)) s3) else []);
          ex = (if ed = [] then [] else take 1 s3 @ sg @ ed);
          s4 = drop (length ex) s3
      in if ip = [] then None
         else if frac = [] \<and> ex = []
         then Some (PInt (if neg then - int (nat_of_digits ip) else int (nat_of_digits ip)), s4)
         else Some (PFloat ((if neg then ''-'' else []) @ ip @ frac @ ex), s4))"

definition startswith :: "string \<Rightarrow> string \<Rightarrow> bool" where
  "startswith s p = (take (length p) s = p)"

text \<open>Values, the members of an object from behind the opening quote of a name, and the
  elements of an array. The first argument bounds the number of calls that may still be
  made; \<open>json_loads_std\<close> starts with more than a text of its length can use, where the
  interpreter bounds the nesting depth by its stack.\<close>

fun scan_once :: "nat \<Rightarrow> string \<Rightarrow> exn + (pyval \<times> string)"
  and scan_object :: "nat \<Rightarrow> (str \<times> pyval) list \<Rightarrow> string \<Rightarrow> exn + (pyval \<times> string)"
  and scan_array :: "nat \<Rightarrow> pyval list \<Rightarrow> string \<Rightarrow> exn + (pyval \<times> string)" where
  "scan_once n s =
     (if n = 0 then Inl RecursionError
      else if startswith s [quote] then
        (case scanstring (drop 1 s) of
           None \<Rightarrow> Inl JSONDecodeError
         | Some (x, rest) \<Rightarrow> Inr (PStr x, rest))
      else if startswith s ''{'' then
        (if startswith (skip_ws (drop 1 s)) ''}'' then Inr (PDict [], drop 1 (skip_ws (drop 1 s)))
         else if startswith (skip_ws (drop 1 s)) [quote]
         then scan_object (n - 1) [] (drop 1 (skip_ws (drop 1 s)))
         else Inl JSONDecodeError)
      else if startswith s ''['' then
        (if startswith (skip_ws (drop 1 s)) '']'' then Inr (PList [], drop 1 (skip_ws (drop 1 s)))
         else scan_array (n - 1) [] (skip_ws (drop 1 s)))
      else if startswith s ''null'' then Inr (PNone, drop 4 s)
      else if startswith s ''true'' then Inr (PBool True, drop 4 s)
      else if startswith s ''false'' then Inr (PBool False, drop 5 s)
      else
        (case scan_number s of
           Some r \<Rightarrow> Inr r
         | None \<Rightarrow>
             if startswith s ''NaN'' then Inr (PFloat ''NaN'', drop 3 s)
             else if startswith s ''Infinity'' then Inr (PFloat ''Infinity'', drop 8 s)
             else if startswith s ''-Infinity'' then Inr (PFloat ''-Infinity'', drop 9 s)
             else Inl JSONDecodeError))"
| "scan_object n pairs s =
     (if n = 0 then Inl RecursionError
      else
        (case scanstring s of
           None \<Rightarrow> Inl JSONDecodeError
         | Some (key, s1) \<Rightarrow>
             if \<not> startswith (skip_ws s1) '':'' then Inl JSONDecodeError
             else
               (case scan_once (n - 1) (skip_ws (drop 1 (skip_ws s1))) of
                  Inl e \<Rightarrow> Inl e
                | Inr (v, s2) \<Rightarrow>
                    if startswith (skip_ws s2) ''}''
                    then Inr (PDict (AList.update key v pairs), drop 1 (skip_ws s2))
                    else if startswith (skip_ws s2) '',''
                            \<and> startswith (skip_ws (drop 1 (skip_ws s2))) [quote]
                    then scan_object (n - 1) (AList.update key v pairs)
                           (drop 1 (skip_ws (drop 1 (skip_ws s2))))
                    else Inl JSONDecodeError)))"
| "scan_array n vals s =
     (if n = 0 then Inl RecursionError
      else
        (case scan_once (n - 1) s of
           Inl e \<Rightarrow> Inl e
         | Inr (v, s1) \<Rightarrow>
             if startswith (skip_ws s1) '']'' then Inr (PList (vals @ [v]), drop 1 (skip_ws s1))
             else if startswith (skip_ws s1) '',''
             then scan_array (n - 1) (vals @ [v]) (skip_ws (drop 1 (skip_ws s1)))
             else Inl JSONDecodeError))"

declare scan_once.simps [simp del] scan_object.simps [simp del] scan_array.simps [simp del]

text \<open>\<^verbatim>\<open>json.loads(s)\<close>: a byte order mark is refused, white space may surround the
  value, nothing else may follow it.\<close>

definition json_loads_std :: "str \<Rightarrow> exn + pyval" where
  "json_loads_std s =
     (if startswith s [CHR 0xEF, CHR 0xBB, CHR 0xBF] then Inl JSONDecodeError
      else
        (case scan_once (2 * length s + 2) (skip_ws s) of
           Inl e \<Rightarrow> Inl e
         | Inr (v, rest) \<Rightarrow> if skip_ws rest = [] then Inr v else Inl JSONDecodeError))"

text \<open>\<^verbatim>\<open>mimetypes.guess_type\<close>: the type is looked up by the extension of the last
  segment, lower case; the table is an excerpt of the one the library ships.\<close>

definition types_map :: "(string \<times> string) list" where
  "types_map =
     [(''html'', ''text/html''), (''htm'', ''text/html''), (''css'', ''text/css''),
      (''js'', ''text/javascript''), (''json'', ''application/json''),
      (''txt'', ''text/plain''), (''png'', ''image/png''), (''jpg'', ''image/jpeg''),
      (''jpeg'', ''image/jpeg''), (''gif'', ''image/gif''), (''svg'', ''image/svg+xml''),
      (''ico'', ''image/vnd.microsoft.icon''), (''py'', ''text/x-python'')]"

definition lower :: "string \<Rightarrow> string" where
  "lower s = map (\<lambda>c. if 65 \<le> ord c \<and> ord c \<le> 90 then chr (ord c + 32) else c) s"

definition guess_type_std :: "str \<Rightarrow> str option" where
  "guess_type_std p =
     (let seg = rev (takeWhile (\<lambda>c. c \<noteq> CHR ''/'') (rev p));
          name = dropWhile (\<lambda>c. c = CHR ''.'') seg;
          ext = rev (takeWhile (\<lambda>c. c \<noteq> CHR ''.'') (rev name))
      in if CHR ''.'' \<in> set name then map_of types_map (lower ext) else None)"

definition stdlib :: lib where
  "stdlib =
     \<lparr>urlparse_path = urlparse_path_std, parse_qs = parse_qs_std, int_of_str = int_of_str_std,
      decode = decode_std, json_dumps = dumps, json_loads = json_loads_std,
      guess_type = guess_type_std\<rparr>"

section \<open>The HTTP front\<close>

text \<open>What a handler does to the outside: calls on the response writer, the sizes it asked
  the request stream for, calls on the client socket (every call made, also one that raises),
  and log records.\<close>

datatype wire =
    Send_response nat
  | Send_header str str
  | End_headers
  | Write bytes

datatype sock_call =
    Sock_create
  | Sock_connect str nat
  | Sock_sendall bytes
  | Sock_close

datatype log_record =
    Error_missing_fields
  | Error_send_to_socket exn
  | Info_mongo_connected
  | Error_mongo_unreachable
  | Info_socket_server_started str nat
  | Info_saved pydict
  | Error_insert exn
  | Error_handle_socket exn

record hstate =
  wfile :: "wire list"
  rfile_reads :: "int list"
  sock_calls :: "sock_call list"
  http_log :: "log_record list"

definition hstate0 :: hstate where
  "hstate0 = \<lparr>wfile = [], rfile_reads = [], sock_calls = [], http_log = []\<rparr>"

text \<open>The request as the handler object holds it: \<^verbatim>\<open>self.path\<close>,
  \<^verbatim>\<open>self.headers\<close> (\<open>req_headers r k\<close> is \<^verbatim>\<open>self.headers.get(k)\<close>), the bytes still
  to be read from \<^verbatim>\<open>self.rfile\<close>, and the largest result that the process has memory
  to read.\<close>

record request =
  req_path :: str
  req_headers :: "str \<rightharpoonup> str"
  req_rfile :: bytes
  req_memory :: int

text \<open>How the transport to the socket listener behaves for one delivery: each of the three
  socket calls either succeeds or raises.\<close>

record transport =
  socket_raises :: "exn option"
  connect_raises :: "exn option"
  sendall_raises :: "exn option"

type_synonym hresult = "exn option \<times> hstate"

definition emit :: "wire list \<Rightarrow> hstate \<Rightarrow> hstate" where
  "emit ws st = st\<lparr>wfile := wfile st @ ws\<rparr>"

definition logging :: "log_record \<Rightarrow> hstate \<Rightarrow> hstate" where
  "logging r st = st\<lparr>http_log := http_log st @ [r]\<rparr>"

definition sock :: "sock_call list \<Rightarrow> hstate \<Rightarrow> hstate" where
  "sock cs st = st\<lparr>sock_calls := sock_calls st @ cs\<rparr>"

text \<open>\<^verbatim>\<open>send_html_file\<close> and \<^verbatim>\<open>send_error_page\<close> call each other. The first argument
  is the number of stack frames still available: Python raises \<^verbatim>\<open>RecursionError\<close>
  when they are used up. \<^verbatim>\<open>except FileNotFoundError\<close> catches that class only.\<close>

fun send_html_file :: "nat \<Rightarrow> filesys \<Rightarrow> str \<Rightarrow> nat \<Rightarrow> hstate \<Rightarrow> hresult"
  and send_error_page :: "nat \<Rightarrow> filesys \<Rightarrow> hstate \<Rightarrow> hresult" where
  "send_html_file 0 fs filename status_code st = (Some RecursionError, st)"
| "send_html_file (Suc d) fs filename status_code st =
     (case open_rb fs filename of
        Inr content \<Rightarrow>
          (None, emit [Send_response status_code,
                       Send_header ''Content-type'' ''text/html'',
                       End_headers,
                       Write content] st)
      | Inl e \<Rightarrow>
          (if e = FileNotFoundError then send_error_page d fs st else (Some e, st)))"
| "send_error_page 0 fs st = (Some RecursionError, st)"
| "send_error_page (Suc d) fs st = send_html_file d fs ''error.html'' 404 st"

text \<open>\<^verbatim>\<open>mimetype or "application/octet-stream"\<close>: \<^verbatim>\<open>None\<close> and the empty string are
  both false.\<close>

definition mimetype_or_default :: "str option \<Rightarrow> str" where
  "mimetype_or_default m =
     (case m of None \<Rightarrow> ''application/octet-stream''
      | Some t \<Rightarrow> if t = [] then ''application/octet-stream'' else t)"

fun send_static_file :: "lib \<Rightarrow> nat \<Rightarrow> filesys \<Rightarrow> str \<Rightarrow> hstate \<Rightarrow> hresult" where
  "send_static_file L 0 fs filepath st = (Some RecursionError, st)"
| "send_static_file L (Suc d) fs filepath st =
     (let mimetype = guess_type L filepath in
      case open_rb fs filepath of
        Inr content \<Rightarrow>
          (None, emit [Send_response 200,
                       Send_header ''Content-type'' (mimetype_or_default mimetype),
                       End_headers,
                       Write content] st)
      | Inl e \<Rightarrow>
          (if e = FileNotFoundError then send_error_page d fs st else (Some e, st)))"

definition do_GET :: "lib \<Rightarrow> nat \<Rightarrow> filesys \<Rightarrow> request \<Rightarrow> hstate \<Rightarrow> hresult" where
  "do_GET L d fs r st =
     (case urlparse_path L (req_path r) of
        Inl e \<Rightarrow> (Some e, st)
      | Inr route \<Rightarrow>
          if route = ''/'' \<or> route = ''/index.html'' then send_html_file d fs ''index.html'' 200 st
          else if route = ''/message.html'' then send_html_file d fs ''message.html'' 200 st
          else if route = ''/error.html'' then send_html_file d fs ''error.html'' 200 st
          else if startswith route ''/static/'' then send_static_file L d fs (drop 1 route) st
          else send_error_page d fs st)"

definition redirect_to_home :: "hstate \<Rightarrow> hresult" where
  "redirect_to_home st =
     (None, emit [Send_response 302, Send_header ''Location'' ''/'', End_headers] st)"

text \<open>\<^verbatim>\<open>send_to_socket\<close>: the validation branch sends the error page and returns.
  \<open>deliver\<close> is the body of the \<^verbatim>\<open>with\<close> block: connect, serialise, send; the
  exception it raises, if any, and the socket calls it made.\<close>

definition deliver ::
    "lib \<Rightarrow> config \<Rightarrow> transport \<Rightarrow> pydict \<Rightarrow> exn option \<times> sock_call list" where
  "deliver L cfg net message =
     (case connect_raises net of
        Some e \<Rightarrow> (Some e, [Sock_connect (SOCKET_HOST cfg) (SOCKET_PORT cfg)])
      | None \<Rightarrow>
     (case json_dumps L (PDict message) of
        Inl e \<Rightarrow> (Some e, [Sock_connect (SOCKET_HOST cfg) (SOCKET_PORT cfg)])
      | Inr text \<Rightarrow>
          (sendall_raises net,
           [Sock_connect (SOCKET_HOST cfg) (SOCKET_PORT cfg), Sock_sendall text])))"

text \<open>The \<^verbatim>\<open>with\<close> statement closes the socket on every way out once it was created, and
  \<^verbatim>\<open>except Exception\<close> logs whatever was raised; nothing is raised to the caller.\<close>

definition send_to_socket ::
    "lib \<Rightarrow> config \<Rightarrow> nat \<Rightarrow> filesys \<Rightarrow> transport \<Rightarrow> pydict \<Rightarrow> hstate \<Rightarrow> hresult" where
  "send_to_socket L cfg d fs net message st =
     (if \<not> truthy (map_of message ''username'') \<or> \<not> truthy (map_of message ''message'')
      then send_error_page d fs (logging Error_missing_fields st)
      else
        (case socket_raises net of
           Some e \<Rightarrow> (None, logging (Error_send_to_socket e) (sock [Sock_create] st))
         | None \<Rightarrow>
             (case deliver L cfg net message of
                (Some e, calls) \<Rightarrow>
                  (None, logging (Error_send_to_socket e)
                           (sock ([Sock_create] @ calls @ [Sock_close]) st))
              | (None, calls) \<Rightarrow>
                  (None, sock ([Sock_create] @ calls @ [Sock_close]) st))))"

text \<open>\<^verbatim>\<open>self.rfile.read(n)\<close> on the buffered reader of the connection: a size that does
  not fit the index type of a 64-bit interpreter raises \<^verbatim>\<open>OverflowError\<close>, a size
  below \<open>-1\<close> raises \<^verbatim>\<open>ValueError\<close>, the size \<open>-1\<close> reads to the end of the stream;
  otherwise the result is allocated (\<^verbatim>\<open>MemoryError\<close> when it cannot be) and filled with
  the next \<open>n\<close> bytes, or with what there is before the end of the stream.\<close>

definition ssize_max :: int where
  "ssize_max = 9223372036854775807"

definition rfile_read :: "request \<Rightarrow> int \<Rightarrow> exn + bytes" where
  "rfile_read r n =
     (if n < - ssize_max - 1 \<or> ssize_max < n then Inl OverflowError
      else if n < - 1 then Inl ValueError
      else if n = - 1 then Inr (req_rfile r)
      else if req_memory r < n then Inl MemoryError
      else Inr (take (nat n) (req_rfile r)))"

text \<open>\<^verbatim>\<open>params.get(k, [""])[0]\<close>\<close>

definition first_param :: "(str \<times> str list) list \<Rightarrow> str \<Rightarrow> exn + str" where
  "first_param params k =
     (case (case map_of params k of None \<Rightarrow> [[]] | Some vs \<Rightarrow> vs) of
        [] \<Rightarrow> Inl IndexError
      | v # _ \<Rightarrow> Inr v)"

definition do_POST ::
    "lib \<Rightarrow> config \<Rightarrow> nat \<Rightarrow> filesys \<Rightarrow> transport \<Rightarrow> request \<Rightarrow> hstate \<Rightarrow> hresult" where
  "do_POST L cfg d fs net r st =
     (if req_path r = ''/message'' then
        (case req_headers r ''Content-Length'' of
           None \<Rightarrow> (Some TypeError, st)
         | Some cl \<Rightarrow>
        (case int_of_str L cl of
           Inl e \<Rightarrow> (Some e, st)
         | Inr content_length \<Rightarrow>
        (let st1 = st\<lparr>rfile_reads := rfile_reads st @ [content_length]\<rparr> in
         case rfile_read r content_length of
           Inl e \<Rightarrow> (Some e, st1)
         | Inr body \<Rightarrow>
        (case decode L body of
           Inl e \<Rightarrow> (Some e, st1)
         | Inr text \<Rightarrow>
        (let params = parse_qs L text in
         case first_param params ''username'' of
           Inl e \<Rightarrow> (Some e, st1)
         | Inr username \<Rightarrow>
        (case first_param params ''message'' of
           Inl e \<Rightarrow> (Some e, st1)
         | Inr msg \<Rightarrow>
        (let message = [(''username'', PStr username), (''message'', PStr msg)] in
         case send_to_socket L cfg d fs net message st1 of
           (Some e, st') \<Rightarrow> (Some e, st')
         | (None, st') \<Rightarrow> redirect_to_home st')))))))
      else send_error_page d fs st)"

section \<open>The socket listener\<close>

text \<open>An accepted connection: the bytes the peer has sent, whether \<^verbatim>\<open>recv\<close> raises
  (a reset connection), and whether \<^verbatim>\<open>close\<close> was called.\<close>

record conn =
  conn_inbuf :: bytes
  conn_recv_raises :: "exn option"
  conn_closed :: bool

text \<open>\<^verbatim>\<open>conn.recv(bufsize)\<close> hands over at most \<open>bufsize\<close> bytes and leaves the
  rest in the connection.\<close>

definition recv :: "conn \<Rightarrow> nat \<Rightarrow> (exn + bytes) \<times> conn" where
  "recv c bufsize =
     (case conn_recv_raises c of
        Some e \<Rightarrow> (Inl e, c)
      | None \<Rightarrow> (Inr (take bufsize (conn_inbuf c)),
                 c\<lparr>conn_inbuf := drop bufsize (conn_inbuf c)\<rparr>))"

definition close :: "conn \<Rightarrow> conn" where
  "close c = c\<lparr>conn_closed := True\<rparr>"

text \<open>The storage sink: the documents of each collection, addressed by database name and
  collection name. The identifier that the driver adds to a stored document is left out.\<close>

type_synonym collection = "str \<times> str"
type_synonym storage = "collection \<Rightarrow> pydict list"

text \<open>What the surroundings decide while one connection is handled: the clock reading of
  \<^verbatim>\<open>datetime.now()\<close> and whether \<^verbatim>\<open>insert_one\<close> raises.\<close>

record henv =
  now :: nat
  insert_raises :: "exn option"

definition insert_one :: "henv \<Rightarrow> collection \<Rightarrow> pydict \<Rightarrow> storage \<Rightarrow> exn + storage" where
  "insert_one env coll doc sto =
     (case insert_raises env of
        Some e \<Rightarrow> Inl e
      | None \<Rightarrow> Inr (sto(coll := sto coll @ [doc])))"

text \<open>\<^verbatim>\<open>message[key] = value\<close>: only a dict accepts a string key; every other value
  that \<^verbatim>\<open>json.loads\<close> can return raises \<^verbatim>\<open>TypeError\<close>.\<close>

fun setitem :: "pyval \<Rightarrow> str \<Rightarrow> pyval \<Rightarrow> exn + pydict" where
  "setitem (PDict d) k v = Inr (AList.update k v d)"
| "setitem _ k v = Inl TypeError"

record lstate =
  sto :: storage
  listener_log :: "log_record list"

definition llog :: "log_record \<Rightarrow> lstate \<Rightarrow> lstate" where
  "llog r st = st\<lparr>listener_log := listener_log st @ [r]\<rparr>"

text \<open>The body of the outer \<^verbatim>\<open>try\<close> of \<^verbatim>\<open>handle_socket_connection\<close>: the exception
  it raises, if any, with the connection and the state at that point.\<close>

definition handle_try ::
    "lib \<Rightarrow> henv \<Rightarrow> conn \<Rightarrow> collection \<Rightarrow> lstate \<Rightarrow> exn option \<times> conn \<times> lstate" where
  "handle_try L env c coll st =
     (case recv c 1024 of
        (Inl e, c') \<Rightarrow> (Some e, c', st)
      | (Inr data, c') \<Rightarrow>
          (if data \<noteq> [] then
             (case decode L data of
                Inl e \<Rightarrow> (Some e, c', st)
              | Inr text \<Rightarrow>
             (case json_loads L text of
                Inl e \<Rightarrow> (Some e, c', st)
              | Inr message \<Rightarrow>
             (case setitem message ''date'' (PDatetime (now env)) of
                Inl e \<Rightarrow> (Some e, c', st)
              | Inr message' \<Rightarrow>
             (case insert_one env coll message' (sto st) of
                Inr sto' \<Rightarrow> (None, c', llog (Info_saved message') (st\<lparr>sto := sto'\<rparr>))
              | Inl e \<Rightarrow> (None, c', llog (Error_insert e) st)))))
           else (None, c', st)))"

text \<open>\<^verbatim>\<open>handle_socket_connection\<close>: \<^verbatim>\<open>except Exception\<close> logs whatever the body
  raised, \<^verbatim>\<open>finally\<close> closes the connection. The first component is the exception
  that leaves the function.\<close>

definition handle_socket_connection ::
    "lib \<Rightarrow> henv \<Rightarrow> conn \<Rightarrow> collection \<Rightarrow> lstate \<Rightarrow> exn option \<times> conn \<times> lstate" where
  "handle_socket_connection L env c coll st =
     (case handle_try L env c coll st of
        (Some e, c', st') \<Rightarrow> (None, close c', llog (Error_handle_socket e) st')
      | (None, c', st') \<Rightarrow> (None, close c', st'))"

text \<open>The start-up of the listener. \<^verbatim>\<open>MongoClient(...)\<close> and the \<^verbatim>\<open>ping\<close> command are
  calls on the storage sink; the surroundings decide whether they raise.\<close>

record mongo =
  client_raises :: "exn option"
  ping_raises :: "exn option"

datatype srv_call =
    Mongo_client str nat
  | Mongo_ping
  | Srv_bind str nat
  | Srv_listen nat
  | Srv_accept
  | Thread_start

datatype outcome = Returned | Raised exn | Blocked_in_accept

record sstate =
  srv_calls :: "srv_call list"
  handled :: "conn list"
  lst :: lstate

definition srv :: "srv_call list \<Rightarrow> sstate \<Rightarrow> sstate" where
  "srv cs s = s\<lparr>srv_calls := srv_calls s @ cs\<rparr>"

definition slog :: "log_record \<Rightarrow> sstate \<Rightarrow> sstate" where
  "slog r s = s\<lparr>lst := llog r (lst s)\<rparr>"

text \<open>The accept loop \<^verbatim>\<open>while True\<close> over the connections that arrive, each with what
  the surroundings decide for it. Every connection gets its own thread; the model runs the
  threads one after the other in the order of acceptance. When no further connection
  arrives the loop stays blocked in \<^verbatim>\<open>accept\<close>.\<close>

fun accept_loop :: "lib \<Rightarrow> collection \<Rightarrow> (conn \<times> henv) list \<Rightarrow> sstate \<Rightarrow> outcome \<times> sstate" where
  "accept_loop L coll [] s = (Blocked_in_accept, srv [Srv_accept] s)"
| "accept_loop L coll ((c, env) # rest) s =
     (case handle_socket_connection L env c coll (lst s) of
        (_, c', st') \<Rightarrow>
          accept_loop L coll rest
            ((srv [Srv_accept, Thread_start] s)\<lparr>handled := handled s @ [c'], lst := st'\<rparr>))"

definition sstate0 :: "storage \<Rightarrow> sstate" where
  "sstate0 db = \<lparr>srv_calls = [], handled = [], lst = \<lparr>sto = db, listener_log = []\<rparr>\<rparr>"

definition run_socket_server ::
    "lib \<Rightarrow> config \<Rightarrow> mongo \<Rightarrow> (conn \<times> henv) list \<Rightarrow> sstate \<Rightarrow> outcome \<times> sstate" where
  "run_socket_server L cfg m arrivals s =
     (case client_raises m of
        Some e \<Rightarrow>
          (if isinstance_ConnectionFailure e
           then (Returned, slog Error_mongo_unreachable (srv [Mongo_client (MONGO_URI cfg) 5000] s))
           else (Raised e, srv [Mongo_client (MONGO_URI cfg) 5000] s))
      | None \<Rightarrow>
     (case ping_raises m of
        Some e \<Rightarrow>
          (if isinstance_ConnectionFailure e
           then (Returned,
                 slog Error_mongo_unreachable (srv [Mongo_client (MONGO_URI cfg) 5000, Mongo_ping] s))
           else (Raised e, srv [Mongo_client (MONGO_URI cfg) 5000, Mongo_ping] s))
      | None \<Rightarrow>
          accept_loop L (DB_NAME cfg, COLLECTION_NAME cfg) arrivals
            (slog (Info_socket_server_started (SOCKET_HOST cfg) (SOCKET_PORT cfg))
               (srv [Srv_bind (SOCKET_HOST cfg) (SOCKET_PORT cfg), Srv_listen 5]
                  (slog Info_mongo_connected
                     (srv [Mongo_client (MONGO_URI cfg) 5000, Mongo_ping] s))))))"

section \<open>The HTTP server and the two processes\<close>

datatype http_method = GET | POST

text \<open>\<^verbatim>\<open>run_http_server\<close>: \<^verbatim>\<open>serve_forever\<close> hands every request to a handler object
  of its own, on a thread of its own; an exception that leaves the handler is reported by
  the server class and ends that request only. The result lists, per request, what its
  handler did.\<close>

definition handle_request ::
    "lib \<Rightarrow> config \<Rightarrow> nat \<Rightarrow> filesys \<Rightarrow> http_method \<times> request \<times> transport \<Rightarrow> hresult" where
  "handle_request L cfg d fs q =
     (case q of
        (GET, r, net) \<Rightarrow> do_GET L d fs r hstate0
      | (POST, r, net) \<Rightarrow> do_POST L cfg d fs net r hstate0)"

definition run_http_server ::
    "lib \<Rightarrow> config \<Rightarrow> nat \<Rightarrow> filesys \<Rightarrow> (http_method \<times> request \<times> transport) list \<Rightarrow> hresult list" where
  "run_http_server L cfg d fs reqs = map (handle_request L cfg d fs) reqs"

text \<open>The start-up code: two processes, which share no memory; the second is started
  whatever the first does, and each runs on its own inputs.\<close>

definition main ::
    "lib \<Rightarrow> config \<Rightarrow> nat \<Rightarrow> filesys \<Rightarrow> (http_method \<times> request \<times> transport) list \<Rightarrow>
     mongo \<Rightarrow> (conn \<times> henv) list \<Rightarrow> storage \<Rightarrow> hresult list \<times> (outcome \<times> sstate)" where
  "main L cfg d fs reqs m arrivals db =
     (run_http_server L cfg d fs reqs, run_socket_server L cfg m arrivals (sstate0 db))"

section \<open>The relay from the front to the listener\<close>

text \<open>The two processes meet on the TCP connection only: the bytes that a completed
  \<^verbatim>\<open>sendall\<close> of the front wrote are the bytes of the connection that the listener
  accepts.\<close>

fun sendall_arg :: "sock_call \<Rightarrow> bytes list" where
  "sendall_arg (Sock_sendall p) = [p]"
| "sendall_arg _ = []"

definition delivered :: "transport \<Rightarrow> sock_call list \<Rightarrow> bytes list" where
  "delivered net calls =
     (if sendall_raises net = None then concat (map sendall_arg calls) else [])"

definition listener_conn :: "bytes \<Rightarrow> conn" where
  "listener_conn p = \<lparr>conn_inbuf = p, conn_recv_raises = None, conn_closed = False\<rparr>"

definition receive_all :: "lib \<Rightarrow> henv \<Rightarrow> collection \<Rightarrow> bytes list \<Rightarrow> lstate \<Rightarrow> lstate" where
  "receive_all L env coll ps st =
     foldl (\<lambda>st p. snd (snd (handle_socket_connection L env (listener_conn p) coll st))) st ps"

text \<open>One form submission through both hops: the POST handler on a fresh handler state,
  then the listener on what was delivered.\<close>

definition submit ::
    "lib \<Rightarrow> config \<Rightarrow> nat \<Rightarrow> filesys \<Rightarrow> transport \<Rightarrow> henv \<Rightarrow> request \<Rightarrow> lstate \<Rightarrow>
     hresult \<times> lstate" where
  "submit L cfg d fs net env r st =
     (let h = do_POST L cfg d fs net r hstate0
      in (h, receive_all L env (DB_NAME cfg, COLLECTION_NAME cfg)
               (delivered net (sock_calls (snd h))) st))"

section \<open>Notions used in the statements\<close>

fun is_connect :: "sock_call \<Rightarrow> bool" where
  "is_connect (Sock_connect h p) = True"
| "is_connect _ = False"

fun is_sendall :: "sock_call \<Rightarrow> bool" where
  "is_sendall (Sock_sendall b) = True"
| "is_sendall _ = False"

text \<open>A payload is what a non-empty read returned; it is malformed when decoding it or
  parsing it as JSON raises.\<close>

definition malformed :: "lib \<Rightarrow> bytes \<Rightarrow> bool" where
  "malformed L data =
     (data \<noteq> [] \<and>
      (case decode L data of
         Inl e \<Rightarrow> True
       | Inr text \<Rightarrow> (case json_loads L text of Inl e \<Rightarrow> True | Inr v \<Rightarrow> False)))"

text \<open>The file that \<^verbatim>\<open>do_GET\<close> opens for a route, if it opens one.\<close>

definition route_file :: "str \<Rightarrow> str option" where
  "route_file route =
     (if route = ''/'' \<or> route = ''/index.html'' then Some ''index.html''
      else if route = ''/message.html'' then Some ''message.html''
      else if route = ''/error.html'' then Some ''error.html''
      else if startswith route ''/static/'' then Some (drop 1 route)
      else None)"

section \<open>A concrete installation\<close>

definition cfg0 :: config where
  "cfg0 = \<lparr>HTTP_HOST = ''0.0.0.0'', HTTP_PORT = 3000, SOCKET_HOST = ''localhost'',
           SOCKET_PORT = 5000, MONGO_URI = ''mongodb://mongodb:27017'',
           DB_NAME = ''messages_db'', COLLECTION_NAME = ''messages''\<rparr>"

definition files0 :: "(str list \<times> node) list" where
  "files0 =
     [([], Directory),
      ([''app''], Directory),
      ([''app'', ''main.py''], File ''import logging''),
      ([''app'', ''index.html''], File ''<h1>Home</h1>''),
      ([''app'', ''message.html''], File ''<form></form>''),
      ([''app'', ''error.html''], File ''<h1>Not found</h1>''),
      ([''app'', ''static''], Directory),
      ([''app'', ''static'', ''style.css''], File ''body {}''),
      ([''app'', ''static'', ''logo''], File ''PNG'')]"

definition fs0 :: filesys where
  "fs0 = \<lparr>cwd = [''app''],
          node_at = (\<lambda>loc. case map_of files0 loc of None \<Rightarrow> Missing | Some n \<Rightarrow> n)\<rparr>"

definition net_ok :: transport where
  "net_ok = \<lparr>socket_raises = None, connect_raises = None, sendall_raises = None\<rparr>"

definition net_refused :: transport where
  "net_refused =
     \<lparr>socket_raises = None, connect_raises = Some ConnectionRefusedError, sendall_raises = None\<rparr>"

definition get :: "str \<Rightarrow> request" where
  "get p = \<lparr>req_path = p, req_headers = Map.empty, req_rfile = [], req_memory = 1073741824\<rparr>"

definition post :: "str \<Rightarrow> bytes \<Rightarrow> request" where
  "post cl body =
     \<lparr>req_path = ''/message'', req_headers = [''Content-Length'' \<mapsto> cl], req_rfile = body,
      req_memory = 1073741824\<rparr>"

definition lstate0 :: lstate where
  "lstate0 = \<lparr>sto = (\<lambda>coll. []), listener_log = []\<rparr>"

definition messages :: collection where
  "messages = (''messages_db'', ''messages'')"

definition at_time :: "nat \<Rightarrow> henv" where
  "at_time t = \<lparr>now = t, insert_raises = None\<rparr>"

text \<open>A payload that carries a \<^verbatim>\<open>date\<close> of its own, and the two states of the sink at
  start-up.\<close>

definition sent_date :: bytes where
  "sent_date = ''{'' @ [quote] @ ''date'' @ [quote] @ '': 1, '' @ [quote] @ ''message''
                 @ [quote] @ '': '' @ [quote] @ ''hi'' @ [quote] @ ''}''"

definition mongo_up :: mongo where
  "mongo_up = \<lparr>client_raises = None, ping_raises = None\<rparr>"

definition mongo_down :: mongo where
  "mongo_down = \<lparr>client_raises = None, ping_raises = Some ServerSelectionTimeoutError\<rparr>"

text \<open>A message of 1100 characters, its JSON text as the front sends it, the form that
  submits it, and a JSON object padded with white space.\<close>

definition long_text :: str where
  "long_text = replicate 1100 CHR ''x''"

definition long_json :: bytes where
  "long_json = ''{'' @ [quote] @ ''username'' @ [quote] @ '': '' @ [quote] @ ''alice'' @ [quote]
      @ '', '' @ [quote] @ ''message'' @ [quote] @ '': '' @ [quote] @ long_text @ [quote] @ ''}''"

definition long_post :: request where
  "long_post = post ''1123'' (''username=alice&message='' @ long_text)"

definition padded_json :: bytes where
  "padded_json = ''{}'' @ replicate 1100 CHR '' ''"

text \<open>A short form and its JSON text.\<close>

definition hello_post :: request where
  "hello_post = post ''28'' ''username=alice&message=hello''"

definition hello_json :: bytes where
  "hello_json = ''{'' @ [quote] @ ''username'' @ [quote] @ '': '' @ [quote] @ ''alice'' @ [quote]
      @ '', '' @ [quote] @ ''message'' @ [quote] @ '': '' @ [quote] @ ''hello'' @ [quote] @ ''}''"

section \<open>Evaluation of the library instance\<close>

lemmas std =
  ord_def chr_def quote_def backslash_def is_ws_def is_digit_def skip_ws_def hexval_def
  lead_def decode_std_def utf8_of_def urlparse_path_std_def unquote_plus_def parse_qsl_def
  add_param_def parse_qs_std_def py_space_def strip_def nat_of_digits_def int_of_str_std_def
  hexdigit_def u_escape_def escape_cp_def encode_string_def show_nat.simps show_int_def
  hex4_def decode_uXXXX_def simple_escape_def prepend_def scan_number_def startswith_def
  json_loads_std_def types_map_def lower_def guess_type_std_def Let_def
  scan_once.simps scan_object.simps scan_array.simps stdlib_def

section \<open>The HTTP front: message submission\<close>

text \<open>
  \<^bold>\<open>C10.\<close> A POST to \<^verbatim>\<open>/message\<close> without a \<^verbatim>\<open>Content-Length\<close> header: the
  handler raises \<^verbatim>\<open>TypeError\<close> (from \<^verbatim>\<open>int(None)\<close>) and leaves its state as it was.
  So the body was not read, no socket call was made, and neither the redirect nor the error
  page was written.
\<close>

theorem do_POST_without_content_length:
  assumes "req_path r = ''/message''"
    and "req_headers r ''Content-Length'' = None"
  shows "do_POST L cfg d fs net r st = (Some TypeError, st)"
  using assms by (simp add: do_POST_def)

theorem do_POST_without_content_length_witness:
  "do_POST stdlib cfg0 10 fs0 net_ok (get ''/message'') hstate0 = (Some TypeError, hstate0)"
  using do_POST_without_content_length [of "get ''/message''" stdlib cfg0 10 fs0 net_ok hstate0]
  by (simp add: get_def)

lemma send_to_socket_valid:
  assumes "u \<noteq> []" "m \<noteq> []"
  shows "send_to_socket L cfg d fs net [(''username'', PStr u), (''message'', PStr m)] st =
     (case socket_raises net of
        Some e \<Rightarrow> (None, logging (Error_send_to_socket e) (sock [Sock_create] st))
      | None \<Rightarrow>
          (case deliver L cfg net [(''username'', PStr u), (''message'', PStr m)] of
             (Some e, calls) \<Rightarrow>
               (None, logging (Error_send_to_socket e)
                        (sock ([Sock_create] @ calls @ [Sock_close]) st))
           | (None, calls) \<Rightarrow> (None, sock ([Sock_create] @ calls @ [Sock_close]) st)))"
  using assms by (simp add: send_to_socket_def)

lemma do_POST_valid:
  assumes "req_path r = ''/message''"
    and "req_headers r ''Content-Length'' = Some cl"
    and "int_of_str L cl = Inr n"
    and "rfile_read r n = Inr body \<and> decode L body = Inr text"
    and "first_param (parse_qs L text) ''username'' = Inr u"
    and "first_param (parse_qs L text) ''message'' = Inr m"
    and "u \<noteq> []" and "m \<noteq> []"
  shows "do_POST L cfg d fs net r st =
     redirect_to_home
       (snd (send_to_socket L cfg d fs net [(''username'', PStr u), (''message'', PStr m)]
               (st\<lparr>rfile_reads := rfile_reads st @ [n]\<rparr>)))"
  using assms
  by (simp add: do_POST_def send_to_socket_valid split: option.splits prod.splits)

text \<open>
  \<^bold>\<open>C3.\<close> A POST to \<^verbatim>\<open>/message\<close> whose body was read and decoded and whose
  extracted \<^verbatim>\<open>username\<close> and \<^verbatim>\<open>message\<close> are both non-empty: the handler returns normally, the only response it
  writes is the 302 redirect to \<^verbatim>\<open>/\<close>, and it makes one delivery attempt: one socket is
  created, \<^verbatim>\<open>connect\<close> and \<^verbatim>\<open>sendall\<close> are called at most once each, \<^verbatim>\<open>connect\<close>
  exactly once (to the configured address) when the socket could be created, and
  \<^verbatim>\<open>sendall\<close> exactly once, with the JSON text of the message, when the connection was
  made. This holds whatever the transport raises.
\<close>

theorem do_POST_delivers_once_then_redirects:
  assumes "req_path r = ''/message''"
    and "req_headers r ''Content-Length'' = Some cl"
    and "int_of_str L cl = Inr n"
    and "rfile_read r n = Inr body \<and> decode L body = Inr text"
    and "first_param (parse_qs L text) ''username'' = Inr u"
    and "first_param (parse_qs L text) ''message'' = Inr m"
    and "u \<noteq> []" and "m \<noteq> []"
  shows "\<exists>st'. do_POST L cfg d fs net r hstate0 = (None, st')
      \<and> wfile st' = [Send_response 302, Send_header ''Location'' ''/'', End_headers]
      \<and> length (filter (\<lambda>c. c = Sock_create) (sock_calls st')) = 1
      \<and> length (filter is_connect (sock_calls st')) \<le> 1
      \<and> length (filter is_sendall (sock_calls st')) \<le> 1
      \<and> (socket_raises net = None \<longrightarrow>
           filter is_connect (sock_calls st') = [Sock_connect (SOCKET_HOST cfg) (SOCKET_PORT cfg)])
      \<and> (\<forall>p. socket_raises net = None \<and> connect_raises net = None
              \<and> json_dumps L (PDict [(''username'', PStr u), (''message'', PStr m)]) = Inr p \<longrightarrow>
           filter is_sendall (sock_calls st') = [Sock_sendall p])"
  unfolding do_POST_valid [OF assms] send_to_socket_valid [OF assms(7,8)]
  by (auto simp: redirect_to_home_def deliver_def emit_def sock_def logging_def hstate0_def
           split: option.splits sum.splits)

text \<open>The handlers by the number of frames, in a form that evaluates on numerals.\<close>

lemma send_html_file_unfold:
  "send_html_file d fs filename status_code st =
     (if d = 0 then (Some RecursionError, st)
      else
        (case open_rb fs filename of
           Inr content \<Rightarrow>
             (None, emit [Send_response status_code, Send_header ''Content-type'' ''text/html'',
                          End_headers, Write content] st)
         | Inl e \<Rightarrow>
             (if e = FileNotFoundError then send_error_page (d - 1) fs st else (Some e, st))))"
  by (cases d) (simp_all split: sum.splits)

lemma send_error_page_unfold:
  "send_error_page d fs st =
     (if d = 0 then (Some RecursionError, st)
      else send_html_file (d - 1) fs ''error.html'' 404 st)"
  by (cases d) (simp_all split: sum.splits)

lemma send_static_file_unfold:
  "send_static_file L d fs filepath st =
     (if d = 0 then (Some RecursionError, st)
      else
        (case open_rb fs filepath of
           Inr content \<Rightarrow>
             (None, emit [Send_response 200,
                          Send_header ''Content-type'' (mimetype_or_default (guess_type L filepath)),
                          End_headers, Write content] st)
         | Inl e \<Rightarrow>
             (if e = FileNotFoundError then send_error_page (d - 1) fs st else (Some e, st))))"
  by (cases d) (simp_all add: Let_def split: sum.splits)

lemmas handlers =
  send_html_file_unfold send_error_page_unfold send_static_file_unfold do_GET_def do_POST_def
  send_to_socket_def deliver_def redirect_to_home_def rfile_read_def ssize_max_def
  first_param_def
  emit_def logging_def sock_def hstate0_def mimetype_or_default_def

lemmas fixtures =
  cfg0_def files0_def fs0_def net_ok_def net_refused_def get_def post_def lstate0_def
  messages_def at_time_def open_rb_def resolve_def

theorem do_POST_delivers_once_then_redirects_witness:
  "\<exists>st'. do_POST stdlib cfg0 1000 fs0 net_refused (post ''28'' ''username=alice&message=hello'')
           hstate0 = (None, st')
      \<and> wfile st' = [Send_response 302, Send_header ''Location'' ''/'', End_headers]
      \<and> length (filter (\<lambda>c. c = Sock_create) (sock_calls st')) = 1
      \<and> length (filter is_connect (sock_calls st')) \<le> 1
      \<and> length (filter is_sendall (sock_calls st')) \<le> 1
      \<and> (socket_raises net_refused = None \<longrightarrow>
           filter is_connect (sock_calls st')
             = [Sock_connect (SOCKET_HOST cfg0) (SOCKET_PORT cfg0)])
      \<and> (\<forall>p. socket_raises net_refused = None \<and> connect_raises net_refused = None
              \<and> json_dumps stdlib (PDict [(''username'', PStr ''alice''), (''message'', PStr ''hello'')])
                  = Inr p \<longrightarrow>
           filter is_sendall (sock_calls st') = [Sock_sendall p])"
proof (rule do_POST_delivers_once_then_redirects)
  show "req_path (post ''28'' ''username=alice&message=hello'') = ''/message''"
    by (simp add: post_def)
  show "req_headers (post ''28'' ''username=alice&message=hello'') ''Content-Length'' = Some ''28''"
    by (simp add: post_def)
  show "int_of_str stdlib ''28'' = Inr 28"
    by (simp add: std)
  show "rfile_read (post ''28'' ''username=alice&message=hello'') 28
          = Inr ''username=alice&message=hello''
      \<and> decode stdlib ''username=alice&message=hello'' = Inr ''username=alice&message=hello''"
    by (simp add: std post_def rfile_read_def ssize_max_def)
  show "first_param (parse_qs stdlib ''username=alice&message=hello'') ''username'' = Inr ''alice''"
    by (simp add: std first_param_def)
  show "first_param (parse_qs stdlib ''username=alice&message=hello'') ''message'' = Inr ''hello''"
    by (simp add: std first_param_def)
  show "''alice'' \<noteq> []" by simp
  show "''hello'' \<noteq> []" by simp
qed

text \<open>
  \<^bold>\<open>C1.\<close> A POST to \<^verbatim>\<open>/message\<close> with an empty \<^verbatim>\<open>username\<close> makes no socket
  call and writes the error page; but \<^verbatim>\<open>do_POST\<close> goes on to
  \<^verbatim>\<open>redirect_to_home\<close> after \<^verbatim>\<open>send_to_socket\<close> has returned, so the 302 redirect is
  written as well, behind the error page. Evaluated for the form \<^verbatim>\<open>message=hi\<close>.
\<close>

theorem do_POST_missing_field_redirects_too:
  "do_POST stdlib cfg0 1000 fs0 net_ok (post ''10'' ''message=hi'') hstate0 =
     (None,
      \<lparr>wfile = [Send_response 404, Send_header ''Content-type'' ''text/html'', End_headers,
                Write ''<h1>Not found</h1>'',
                Send_response 302, Send_header ''Location'' ''/'', End_headers],
       rfile_reads = [10], sock_calls = [], http_log = [Error_missing_fields]\<rparr>)"
  by (simp add: std handlers fixtures)

section \<open>The socket listener: one connection\<close>

lemma handle_socket_connection_returns:
  "fst (handle_socket_connection L env c coll st) = None"
  by (simp add: handle_socket_connection_def split: prod.splits option.splits)

lemma handle_socket_connection_closes:
  "conn_closed (fst (snd (handle_socket_connection L env c coll st)))"
  by (simp add: handle_socket_connection_def close_def split: prod.splits option.splits)

lemma handle_try_malformed:
  assumes "conn_recv_raises c = None"
    and "malformed L (take 1024 (conn_inbuf c))"
  shows "\<exists>e. handle_try L env c coll st
            = (Some e, c\<lparr>conn_inbuf := drop 1024 (conn_inbuf c)\<rparr>, st)"
  using assms
  by (auto simp: handle_try_def recv_def malformed_def split: sum.splits)

text \<open>
  \<^bold>\<open>C4.\<close> Whatever arrives on a connection, \<^verbatim>\<open>handle_socket_connection\<close> returns
  without an exception and has closed the connection. When the payload is malformed (the
  bytes read do not decode, or the text does not parse as JSON), the storage is left as it
  was and the error is logged.
\<close>

theorem malformed_payload_is_dropped:
  "fst (handle_socket_connection L env c coll st) = None
   \<and> conn_closed (fst (snd (handle_socket_connection L env c coll st)))
   \<and> (conn_recv_raises c = None \<and> malformed L (take 1024 (conn_inbuf c)) \<longrightarrow>
        sto (snd (snd (handle_socket_connection L env c coll st))) = sto st
        \<and> (\<exists>e. listener_log (snd (snd (handle_socket_connection L env c coll st)))
                 = listener_log st @ [Error_handle_socket e]))"
proof (intro conjI impI)
  show "fst (handle_socket_connection L env c coll st) = None"
    by (rule handle_socket_connection_returns)
  show "conn_closed (fst (snd (handle_socket_connection L env c coll st)))"
    by (rule handle_socket_connection_closes)
next
  assume a: "conn_recv_raises c = None \<and> malformed L (take 1024 (conn_inbuf c))"
  then obtain e where
    e: "handle_try L env c coll st = (Some e, c\<lparr>conn_inbuf := drop 1024 (conn_inbuf c)\<rparr>, st)"
    using handle_try_malformed by blast
  show "sto (snd (snd (handle_socket_connection L env c coll st))) = sto st"
    by (simp add: handle_socket_connection_def e llog_def)
  show "\<exists>e. listener_log (snd (snd (handle_socket_connection L env c coll st)))
                 = listener_log st @ [Error_handle_socket e]"
    by (simp add: handle_socket_connection_def e llog_def)
qed

lemma malformed_not_json: "malformed stdlib ''not json''"
  by (simp add: malformed_def std)

theorem malformed_payload_is_dropped_witness:
  "sto (snd (snd (handle_socket_connection stdlib (at_time 7) (listener_conn ''not json'')
                    messages lstate0))) = sto lstate0
   \<and> (\<exists>e. listener_log (snd (snd (handle_socket_connection stdlib (at_time 7)
                    (listener_conn ''not json'') messages lstate0)))
            = listener_log lstate0 @ [Error_handle_socket e])
   \<and> conn_closed (fst (snd (handle_socket_connection stdlib (at_time 7)
                    (listener_conn ''not json'') messages lstate0)))"
  using malformed_payload_is_dropped
          [of stdlib "at_time 7" "listener_conn ''not json''" messages lstate0]
        malformed_not_json
  by (simp add: listener_conn_def)

section \<open>The socket listener: well-formed payloads\<close>

lemma handle_try_object:
  assumes "conn_recv_raises c = None"
    and "take 1024 (conn_inbuf c) \<noteq> []"
    and "decode L (take 1024 (conn_inbuf c)) = Inr text"
    and "json_loads L text = Inr (PDict d)"
    and "insert_raises env = None"
  shows "handle_socket_connection L env c coll st =
     (None, c\<lparr>conn_inbuf := drop 1024 (conn_inbuf c), conn_closed := True\<rparr>,
      \<lparr>sto = (sto st)(coll := sto st coll @ [AList.update ''date'' (PDatetime (now env)) d]),
       listener_log = listener_log st
          @ [Info_saved (AList.update ''date'' (PDatetime (now env)) d)]\<rparr>)"
  using assms
  by (simp add: handle_socket_connection_def handle_try_def recv_def insert_one_def llog_def
        close_def)

lemma handle_try_not_object:
  assumes "conn_recv_raises c = None"
    and "take 1024 (conn_inbuf c) \<noteq> []"
    and "decode L (take 1024 (conn_inbuf c)) = Inr text"
    and "json_loads L text = Inr v"
    and "\<forall>d. v \<noteq> PDict d"
  shows "handle_socket_connection L env c coll st =
     (None, c\<lparr>conn_inbuf := drop 1024 (conn_inbuf c), conn_closed := True\<rparr>,
      st\<lparr>listener_log := listener_log st @ [Error_handle_socket TypeError]\<rparr>)"
  using assms
  by (cases v)
     (simp_all add: handle_socket_connection_def handle_try_def recv_def llog_def close_def)

lemma accept_one:
  "accept_loop L coll [(c, env)] s =
     (Blocked_in_accept,
      srv [Srv_accept]
        ((srv [Srv_accept, Thread_start] s)
           \<lparr>handled := handled s @ [fst (snd (handle_socket_connection L env c coll (lst s)))],
            lst := snd (snd (handle_socket_connection L env c coll (lst s)))\<rparr>))"
  by (simp split: prod.splits)

text \<open>
  \<^bold>\<open>C2\<close> (as amended). A payload of at most 1024 bytes that decodes and parses to a JSON
  object, with an \<^verbatim>\<open>insert_one\<close> that does not raise: the handler appends exactly one
  document to the collection it was given and changes no other collection; the document is
  the parsed object with \<^verbatim>\<open>date\<close> set to the clock reading taken in the handler, in place
  of any \<^verbatim>\<open>date\<close> that was sent. Started by \<^verbatim>\<open>run_socket_server\<close>, the handler is given
  the collection \<^verbatim>\<open>COLLECTION_NAME\<close> of the database \<^verbatim>\<open>DB_NAME\<close>.
\<close>

theorem object_payload_is_stored_once:
  assumes "conn_recv_raises c = None"
    and "conn_inbuf c \<noteq> []"
    and "length (conn_inbuf c) \<le> 1024"
    and "decode L (conn_inbuf c) = Inr text"
    and "json_loads L text = Inr (PDict d)"
    and "insert_raises env = None"
    and "client_raises m = None"
    and "ping_raises m = None"
  shows "sto (snd (snd (handle_socket_connection L env c coll st)))
           = (sto st)(coll := sto st coll @ [AList.update ''date'' (PDatetime (now env)) d])
    \<and> map_of (AList.update ''date'' (PDatetime (now env)) d) ''date''
           = Some (PDatetime (now env))
    \<and> sto (lst (snd (run_socket_server L cfg m [(c, env)] (sstate0 db))))
           = db((DB_NAME cfg, COLLECTION_NAME cfg) :=
                  db (DB_NAME cfg, COLLECTION_NAME cfg)
                    @ [AList.update ''date'' (PDatetime (now env)) d])"
proof -
  have t: "take 1024 (conn_inbuf c) = conn_inbuf c"
    using assms(3) by simp
  have h: "\<And>coll st. sto (snd (snd (handle_socket_connection L env c coll st)))
           = (sto st)(coll := sto st coll @ [AList.update ''date'' (PDatetime (now env)) d])"
    using assms(1,2,4,5,6) by (simp add: handle_try_object t)
  have "map_of (AList.update ''date'' (PDatetime (now env)) d) ''date''
           = Some (PDatetime (now env))"
    by (simp add: update_conv')
  moreover have "sto (lst (snd (run_socket_server L cfg m [(c, env)] (sstate0 db))))
           = db((DB_NAME cfg, COLLECTION_NAME cfg) :=
                  db (DB_NAME cfg, COLLECTION_NAME cfg)
                    @ [AList.update ''date'' (PDatetime (now env)) d])"
    using assms(7,8)
    by (simp del: accept_loop.simps
          add: run_socket_server_def accept_one h srv_def slog_def llog_def sstate0_def)
  ultimately show ?thesis
    using h by simp
qed

theorem object_payload_is_stored_once_witness:
  "sto (snd (snd (handle_socket_connection stdlib (at_time 7) (listener_conn sent_date)
                    messages lstate0)))
     = (sto lstate0)(messages := [[(''date'', PDatetime 7), (''message'', PStr ''hi'')]])
   \<and> sto (lst (snd (run_socket_server stdlib cfg0 mongo_up
                      [(listener_conn sent_date, at_time 7)] (sstate0 (\<lambda>coll. [])))))
     = (\<lambda>coll. [])((''messages_db'', ''messages'')
           := [[(''date'', PDatetime 7), (''message'', PStr ''hi'')]])"
proof -
  have 1: "conn_recv_raises (listener_conn sent_date) = None"
    by (simp add: listener_conn_def)
  have 2: "conn_inbuf (listener_conn sent_date) \<noteq> []"
    by (simp add: listener_conn_def sent_date_def)
  have 3: "length (conn_inbuf (listener_conn sent_date)) \<le> 1024"
    by (simp add: listener_conn_def sent_date_def)
  have 4: "decode stdlib (conn_inbuf (listener_conn sent_date)) = Inr sent_date"
    by (simp add: listener_conn_def sent_date_def std)
  have 5: "json_loads stdlib sent_date = Inr (PDict [(''date'', PInt 1), (''message'', PStr ''hi'')])"
    by (simp add: sent_date_def std)
  have 6: "insert_raises (at_time 7) = None"
    by (simp add: at_time_def)
  have 7: "client_raises mongo_up = None" "ping_raises mongo_up = None"
    by (simp_all add: mongo_up_def)
  show ?thesis
    using object_payload_is_stored_once [OF 1 2 3 4 5 6 7, of messages lstate0 cfg0 "\<lambda>coll. []"]
    by (simp add: at_time_def lstate0_def cfg0_def)
qed

text \<open>
  \<^bold>\<open>C2\<close> (as stated) fails: the payload \<^verbatim>\<open>[]\<close> is well-formed JSON, yet
  \<^verbatim>\<open>message["date"] = ...\<close> raises \<^verbatim>\<open>TypeError\<close> on a list, the handler logs it, and
  no document is inserted.
\<close>

theorem array_payload_is_not_stored:
  "decode stdlib ''[]'' = Inr ''[]''
   \<and> json_loads stdlib ''[]'' = Inr (PList [])
   \<and> handle_socket_connection stdlib (at_time 7) (listener_conn ''[]'') messages lstate0
       = (None,
          \<lparr>conn_inbuf = [], conn_recv_raises = None, conn_closed = True\<rparr>,
          \<lparr>sto = (\<lambda>coll. []), listener_log = [Error_handle_socket TypeError]\<rparr>)"
  by (simp add: std handle_socket_connection_def handle_try_def recv_def llog_def close_def
        listener_conn_def lstate0_def at_time_def)

section \<open>Start-up with the storage sink down\<close>

text \<open>
  \<^bold>\<open>C5.\<close> When the \<^verbatim>\<open>ping\<close> of the start-up check (client created with a server
  selection timeout of 5000 ms) raises a \<^verbatim>\<open>ConnectionFailure\<close>, \<^verbatim>\<open>run_socket_server\<close>
  returns: it has logged the failure, has made no \<^verbatim>\<open>bind\<close>, \<^verbatim>\<open>listen\<close> or
  \<^verbatim>\<open>accept\<close> call, has handled no connection and has left the storage alone. The HTTP
  process of \<^verbatim>\<open>main\<close> handles its requests as it does with any other state of the sink.
\<close>

theorem sink_down_listener_returns_front_serves:
  assumes "client_raises m = None"
    and "ping_raises m = Some e"
    and "isinstance_ConnectionFailure e"
  shows "snd (main L cfg d fs reqs m arrivals db)
           = (Returned,
              \<lparr>srv_calls = [Mongo_client (MONGO_URI cfg) 5000, Mongo_ping], handled = [],
               lst = \<lparr>sto = db, listener_log = [Error_mongo_unreachable]\<rparr>\<rparr>)
    \<and> fst (main L cfg d fs reqs m arrivals db) = fst (main L cfg d fs reqs m' arrivals' db')
    \<and> fst (main L cfg d fs reqs m arrivals db) = map (handle_request L cfg d fs) reqs"
  using assms
  by (simp add: main_def run_socket_server_def run_http_server_def srv_def slog_def llog_def
        sstate0_def)

theorem sink_down_listener_returns_front_serves_witness:
  "main stdlib cfg0 1000 fs0 [(GET, get ''/'', net_refused)] mongo_down
        [(listener_conn sent_date, at_time 7)] (\<lambda>coll. [])
     = ([(None,
          \<lparr>wfile = [Send_response 200, Send_header ''Content-type'' ''text/html'', End_headers,
                    Write ''<h1>Home</h1>''],
           rfile_reads = [], sock_calls = [], http_log = []\<rparr>)],
        (Returned,
         \<lparr>srv_calls = [Mongo_client ''mongodb://mongodb:27017'' 5000, Mongo_ping], handled = [],
          lst = \<lparr>sto = (\<lambda>coll. []), listener_log = [Error_mongo_unreachable]\<rparr>\<rparr>))"
proof -
  have 1: "client_raises mongo_down = None"
    and 2: "ping_raises mongo_down = Some ServerSelectionTimeoutError"
    and 3: "isinstance_ConnectionFailure ServerSelectionTimeoutError"
    by (simp_all add: mongo_down_def)
  have "handle_request stdlib cfg0 1000 fs0 (GET, get ''/'', net_refused)
          = (None,
          \<lparr>wfile = [Send_response 200, Send_header ''Content-type'' ''text/html'', End_headers,
                    Write ''<h1>Home</h1>''],
           rfile_reads = [], sock_calls = [], http_log = []\<rparr>)"
    by (simp add: handle_request_def std handlers fixtures)
  then show ?thesis
    using sink_down_listener_returns_front_serves [OF 1 2 3,
            of stdlib cfg0 1000 fs0 "[(GET, get ''/'', net_refused)]"
               "[(listener_conn sent_date, at_time 7)]" "\<lambda>coll. []"]
    by (simp add: prod_eq_iff cfg0_def)
qed

section \<open>The HTTP front: files\<close>

lemma startswith_static_routes:
  assumes "startswith route ''/static/''"
  shows "route \<noteq> ''/''" "route \<noteq> ''/index.html''" "route \<noteq> ''/message.html''"
    "route \<noteq> ''/error.html''"
  using assms by (auto simp: startswith_def)

lemma do_GET_route:
  assumes "urlparse_path L (req_path r) = Inr route"
  shows "do_GET L d fs r st =
     (case route_file route of
        None \<Rightarrow> send_error_page d fs st
      | Some f \<Rightarrow>
          if startswith route ''/static/'' then send_static_file L d fs f st
          else send_html_file d fs f (200::nat) st)"
  using assms startswith_static_routes [of route]
  by (auto simp: do_GET_def route_file_def)

lemma error_page_served:
  assumes "open_rb fs ''error.html'' = Inr page" and "2 \<le> d"
  shows "send_error_page d fs st =
     (None, emit [Send_response 404, Send_header ''Content-type'' ''text/html'', End_headers,
                  Write page] st)"
proof -
  obtain k where "d = Suc (Suc k)"
    using assms(2) by (metis Suc_le_D numeral_2_eq_2 le_Suc_ex add_2_eq_Suc)
  then show ?thesis
    using assms(1) by simp
qed

lemma send_html_file_missing:
  assumes "open_rb fs f = Inl FileNotFoundError"
    and "open_rb fs ''error.html'' = Inr page"
    and "3 \<le> d"
  shows "send_html_file d fs f sc st =
     (None, emit [Send_response 404, Send_header ''Content-type'' ''text/html'', End_headers,
                  Write page] st)"
proof -
  obtain k where k: "d = Suc k" and k2: "2 \<le> k"
    using assms(3) by (cases d) auto
  show ?thesis
    using assms(1) error_page_served [OF assms(2) k2, of st] by (simp add: k)
qed

lemma send_static_file_missing:
  assumes "open_rb fs f = Inl FileNotFoundError"
    and "open_rb fs ''error.html'' = Inr page"
    and "3 \<le> d"
  shows "send_static_file L d fs f st =
     (None, emit [Send_response 404, Send_header ''Content-type'' ''text/html'', End_headers,
                  Write page] st)"
proof -
  obtain k where k: "d = Suc k" and k2: "2 \<le> k"
    using assms(3) by (cases d) auto
  show ?thesis
    using assms(1) error_page_served [OF assms(2) k2, of st] by (simp add: k)
qed

lemma send_html_file_raises:
  assumes "open_rb fs f = Inl e" and "e \<noteq> FileNotFoundError" and "1 \<le> d"
  shows "send_html_file d fs f sc st = (Some e, st)"
  using assms by (cases d) simp_all

lemma send_static_file_raises:
  assumes "open_rb fs f = Inl e" and "e \<noteq> FileNotFoundError" and "1 \<le> d"
  shows "send_static_file L d fs f st = (Some e, st)"
  using assms by (cases d) simp_all

text \<open>The content type of a static file is the guessed one, or
  \<^verbatim>\<open>application/octet-stream\<close> when nothing is guessed.\<close>

lemma static_file_content_type:
  assumes "urlparse_path L (req_path r) = Inr route"
    and "startswith route ''/static/''"
    and "open_rb fs (drop 1 route) = Inr content"
    and "1 \<le> d"
  shows "do_GET L d fs r st =
     (None, emit [Send_response 200,
                  Send_header ''Content-type''
                    (case guess_type L (drop 1 route) of
                       None \<Rightarrow> ''application/octet-stream''
                     | Some t \<Rightarrow> if t = [] then ''application/octet-stream'' else t),
                  End_headers, Write content] st)"
proof -
  obtain k where "d = Suc k"
    using assms(4) by (metis Suc_le_D One_nat_def)
  then show ?thesis
    using assms(1,2,3) startswith_static_routes [of route]
    by (simp add: do_GET_def mimetype_or_default_def)
qed

text \<open>
  \<^bold>\<open>C6.\<close> The request \<^verbatim>\<open>GET /static/../main.py\<close> passes the test
  \<^verbatim>\<open>route.startswith("/static/")\<close>; the path \<^verbatim>\<open>static/../main.py\<close> is opened as it
  is, resolves to the program's own source in the working directory, outside the static
  root, and that file is served.
\<close>

theorem static_route_serves_file_outside_root:
  "do_GET stdlib 1000 fs0 (get ''/static/../main.py'') hstate0
     = (None,
        \<lparr>wfile = [Send_response 200, Send_header ''Content-type'' ''text/x-python'', End_headers,
                  Write ''import logging''],
         rfile_reads = [], sock_calls = [], http_log = []\<rparr>)
   \<and> resolve fs0 ''static/../main.py'' = Inr [''app'', ''main.py'']
   \<and> \<not> within_static_root fs0 [''app'', ''main.py'']"
  by (simp add: std handlers fixtures within_static_root_def static_root_def)

text \<open>
  \<^bold>\<open>C7\<close> (as amended). For a GET request, with the error page readable and three stack
  frames free: when the route names no file, or opening the file it names raises
  \<^verbatim>\<open>FileNotFoundError\<close>, the response is the error page with status 404; when opening
  the file raises anything else (a directory, a refused permission, a null character in the
  name, a name too long), that exception leaves \<^verbatim>\<open>do_GET\<close> and nothing has been
  written. In either case the server handles the requests before and after this one as it
  does without it.
\<close>

theorem missing_file_gives_error_page:
  assumes "urlparse_path L (req_path r) = Inr route"
    and "open_rb fs ''error.html'' = Inr page"
    and "3 \<le> d"
  shows "(route_file route = None
          \<or> (\<exists>f. route_file route = Some f \<and> open_rb fs f = Inl FileNotFoundError) \<longrightarrow>
            do_GET L d fs r st =
              (None, emit [Send_response 404, Send_header ''Content-type'' ''text/html'',
                           End_headers, Write page] st))
    \<and> (\<forall>f e. route_file route = Some f \<and> open_rb fs f = Inl e \<and> e \<noteq> FileNotFoundError \<longrightarrow>
            do_GET L d fs r st = (Some e, st))
    \<and> run_http_server L cfg d fs (before @ [(GET, r, net)] @ after)
         = run_http_server L cfg d fs before @ [do_GET L d fs r hstate0]
             @ run_http_server L cfg d fs after"
proof -
  have d: "2 \<le> d" "1 \<le> d"
    using assms(3) by simp_all
  have "run_http_server L cfg d fs (before @ [(GET, r, net)] @ after)
         = run_http_server L cfg d fs before @ [do_GET L d fs r hstate0]
             @ run_http_server L cfg d fs after"
    by (simp add: run_http_server_def handle_request_def)
  then show ?thesis
    unfolding do_GET_route [OF assms(1)]
    using assms(2,3) d
    by (auto simp del: send_html_file.simps send_error_page.simps send_static_file.simps
          simp add: error_page_served send_html_file_missing send_static_file_missing
            send_html_file_raises send_static_file_raises)
qed

theorem missing_file_gives_error_page_witness:
  "do_GET stdlib 1000 fs0 (get ''/static/none.css'') hstate0 =
     (None, emit [Send_response 404, Send_header ''Content-type'' ''text/html'',
                  End_headers, Write ''<h1>Not found</h1>''] hstate0)
   \<and> do_GET stdlib 1000 fs0 (get ''/static/'') hstate0 = (Some IsADirectoryError, hstate0)
   \<and> do_GET stdlib 1000 fs0 (get (''/static/a'' @ [CHR 0x00] @ ''b'')) hstate0
       = (Some ValueError, hstate0)
   \<and> run_http_server stdlib cfg0 1000 fs0
         [(GET, get ''/static/'', net_ok), (GET, get ''/static/none.css'', net_ok)]
       = [(Some IsADirectoryError, hstate0),
          (None, emit [Send_response 404, Send_header ''Content-type'' ''text/html'',
                       End_headers, Write ''<h1>Not found</h1>''] hstate0)]"
proof -
  have p1: "urlparse_path stdlib (req_path (get ''/static/none.css'')) = Inr ''/static/none.css''"
    and q1: "urlparse_path stdlib (req_path (get ''/static/'')) = Inr ''/static/''"
    and r1: "urlparse_path stdlib (req_path (get (''/static/a'' @ [CHR 0x00] @ ''b'')))
               = Inr (''/static/a'' @ [CHR 0x00] @ ''b'')"
    by (simp_all add: std get_def)
  have p2: "open_rb fs0 ''error.html'' = Inr ''<h1>Not found</h1>''"
    by (simp add: fixtures)
  have p3: "(3::nat) \<le> 1000"
    by simp
  have p4: "route_file ''/static/none.css'' = Some ''static/none.css''"
    and q4: "route_file ''/static/'' = Some ''static/''"
    and r4: "route_file (''/static/a'' @ [CHR 0x00] @ ''b'') = Some (''static/a'' @ [CHR 0x00] @ ''b'')"
    by (simp_all add: route_file_def startswith_def)
  have p5: "open_rb fs0 ''static/none.css'' = Inl FileNotFoundError"
    and q5: "open_rb fs0 ''static/'' = Inl IsADirectoryError"
    and r5: "open_rb fs0 (''static/a'' @ [CHR 0x00] @ ''b'') = Inl ValueError"
    by (simp_all add: fixtures)
  note p = missing_file_gives_error_page [OF p1 p2 p3, of hstate0 cfg0 "[(GET, get ''/static/'', net_ok)]" net_ok "[]"]
  note q = missing_file_gives_error_page [OF q1 p2 p3, of hstate0 cfg0 "[]" net_ok "[]"]
  note r = missing_file_gives_error_page [OF r1 p2 p3, of hstate0 cfg0 "[]" net_ok "[]"]
  have a: "do_GET stdlib 1000 fs0 (get ''/static/none.css'') hstate0 =
     (None, emit [Send_response 404, Send_header ''Content-type'' ''text/html'',
                  End_headers, Write ''<h1>Not found</h1>''] hstate0)"
    using p [THEN conjunct1] p4 p5 by simp
  have b: "do_GET stdlib 1000 fs0 (get ''/static/'') hstate0 = (Some IsADirectoryError, hstate0)"
    using q [THEN conjunct2, THEN conjunct1] q4 q5 by simp
  have c: "do_GET stdlib 1000 fs0 (get (''/static/a'' @ [CHR 0x00] @ ''b'')) hstate0
       = (Some ValueError, hstate0)"
    using r [THEN conjunct2, THEN conjunct1] r4 r5 by simp
  have e: "run_http_server stdlib cfg0 1000 fs0
         [(GET, get ''/static/'', net_ok), (GET, get ''/static/none.css'', net_ok)]
       = [(Some IsADirectoryError, hstate0),
          (None, emit [Send_response 404, Send_header ''Content-type'' ''text/html'',
                       End_headers, Write ''<h1>Not found</h1>''] hstate0)]"
    using p [THEN conjunct2, THEN conjunct2] a b
    by (simp add: run_http_server_def handle_request_def)
  show ?thesis
    using a b c e by blast
qed

text \<open>
  \<^bold>\<open>C7\<close> (as stated) fails: \<^verbatim>\<open>GET /static/\<close> opens the directory \<^verbatim>\<open>static/\<close>;
  \<^verbatim>\<open>IsADirectoryError\<close> is not a \<^verbatim>\<open>FileNotFoundError\<close>, so it is not caught, and
  no response is written.
\<close>

theorem directory_read_failure_is_not_caught:
  "do_GET stdlib 1000 fs0 (get ''/static/'') hstate0 = (Some IsADirectoryError, hstate0)"
  by (simp add: std handlers fixtures)

section \<open>Long payloads\<close>

text \<open>Texts that end in a run of one character, as far as the library instance reads
  them.\<close>

lemma utf8_ok_ascii_run:
  assumes "ord x < 0x80"
  shows "utf8_ok [] (replicate n x @ s) = utf8_ok [] s"
  using assms by (induction n) (simp_all add: lead_def)

lemma code_points_ascii_run:
  assumes "ord x < 0x80"
  shows "code_points 0 0 (replicate n x @ s) = replicate n (ord x) @ code_points 0 0 s"
  using assms by (induction n) (simp_all add: Let_def)

lemma concat_replicate_single: "concat (replicate n [x]) = replicate n x"
  by (induction n) simp_all

lemma scanstring_run:
  assumes "x \<noteq> quote" and "x \<noteq> backslash" and "\<not> ord x < 0x20"
  shows "scanstring (replicate n x @ s) = prepend (replicate n x) (scanstring s)"
  using assms
  by (induction n) (simp_all add: prepend_def split: option.splits)

lemma unquote_run:
  assumes "x \<noteq> CHR ''%''"
  shows "unquote (replicate n x) = replicate n x"
proof (induction n rule: less_induct)
  case (less n)
  show ?case
  proof (cases n)
    case 0
    then show ?thesis by simp
  next
    case (Suc k)
    show ?thesis
    proof (cases k)
      case 0
      then show ?thesis using Suc by simp
    next
      case (Suc j)
      note kj = this
      show ?thesis
      proof (cases j)
        case 0
        then show ?thesis using \<open>n = Suc k\<close> kj by simp
      next
        case (Suc i)
        have "unquote (replicate (Suc (Suc i)) x) = replicate (Suc (Suc i)) x"
          using less [of "Suc (Suc i)"] \<open>n = Suc k\<close> kj Suc by simp
        then show ?thesis
          using \<open>n = Suc k\<close> kj Suc assms by simp
      qed
    qed
  qed
qed

lemma split_on_run:
  assumes "x \<noteq> c"
  shows "split_on c (replicate n x) = [replicate n x]"
  using assms by (induction n) simp_all

lemma x_run:
  "utf8_ok [] (replicate n CHR ''x'')"
  "code_points 0 0 (replicate n CHR ''x'') = replicate n 120"
  "scanstring (replicate n CHR ''x'') = None"
  "unquote (replicate n CHR ''x'') = replicate n CHR ''x''"
  "split_on CHR ''&'' (replicate n CHR ''x'') = [replicate n CHR ''x'']"
  using utf8_ok_ascii_run [of "CHR ''x''" n "[]"] code_points_ascii_run [of "CHR ''x''" n "[]"]
    scanstring_run [of "CHR ''x''" n "[]"] unquote_run [of "CHR ''x''" n]
    split_on_run [of "CHR ''x''" "CHR ''&''" n]
  by (simp_all add: ord_def quote_def backslash_def prepend_def)

lemma space_run:
  "utf8_ok [] (replicate n CHR '' '')"
  "skip_ws (replicate n CHR '' '') = []"
  using utf8_ok_ascii_run [of "CHR '' ''" n "[]"]
  by (simp_all add: ord_def skip_ws_def is_ws_def)

lemma dumps_long:
  "dumps (PDict [(''username'', PStr ''alice''), (''message'', PStr long_text)]) = Inr long_json"
  by (simp add: std x_run concat_replicate_single long_text_def long_json_def)

lemma take_long_json:
  "take 1024 long_json = ''{'' @ [quote] @ ''username'' @ [quote] @ '': '' @ [quote] @ ''alice''
      @ [quote] @ '', '' @ [quote] @ ''message'' @ [quote] @ '': '' @ [quote]
      @ replicate 990 CHR ''x''"
  by (simp add: long_json_def long_text_def)

lemma long_json_cut_malformed: "malformed stdlib (take 1024 long_json)"
  unfolding take_long_json
  by (simp add: malformed_def std x_run)

lemmas listener =
  handle_socket_connection_def handle_try_def recv_def insert_one_def llog_def close_def
  listener_conn_def

section \<open>Payloads beyond the receive buffer\<close>

text \<open>
  \<^bold>\<open>C9\<close> (as amended). When more than 1024 bytes have arrived, the handler reads the first
  1024 and leaves the rest unread in the connection it closes; what it does to the storage
  and the log is what it does for those 1024 bytes alone. When they fail to decode or to
  parse as JSON, no document is inserted.
\<close>

theorem long_payload_is_cut:
  assumes "conn_recv_raises c = None"
    and "1024 < length (conn_inbuf c)"
  shows "fst (snd (handle_socket_connection L env c coll st))
           = c\<lparr>conn_inbuf := drop 1024 (conn_inbuf c), conn_closed := True\<rparr>
    \<and> snd (snd (handle_socket_connection L env c coll st))
           = snd (snd (handle_socket_connection L env
                         (c\<lparr>conn_inbuf := take 1024 (conn_inbuf c)\<rparr>) coll st))
    \<and> (malformed L (take 1024 (conn_inbuf c)) \<longrightarrow>
           sto (snd (snd (handle_socket_connection L env c coll st))) = sto st)"
proof (intro conjI impI)
  show "fst (snd (handle_socket_connection L env c coll st))
           = c\<lparr>conn_inbuf := drop 1024 (conn_inbuf c), conn_closed := True\<rparr>"
    using assms(1)
    by (simp add: listener split: sum.splits option.splits prod.splits)
  show "snd (snd (handle_socket_connection L env c coll st))
           = snd (snd (handle_socket_connection L env
                         (c\<lparr>conn_inbuf := take 1024 (conn_inbuf c)\<rparr>) coll st))"
    using assms(1)
    by (simp add: listener split: sum.splits option.splits prod.splits)
next
  assume "malformed L (take 1024 (conn_inbuf c))"
  then obtain e where
    "handle_try L env c coll st = (Some e, c\<lparr>conn_inbuf := drop 1024 (conn_inbuf c)\<rparr>, st)"
    using handle_try_malformed [OF assms(1)] by blast
  then show "sto (snd (snd (handle_socket_connection L env c coll st))) = sto st"
    by (simp add: handle_socket_connection_def llog_def)
qed

theorem long_payload_is_cut_witness:
  "1024 < length long_json
   \<and> malformed stdlib (take 1024 long_json)
   \<and> conn_inbuf (fst (snd (handle_socket_connection stdlib (at_time 7) (listener_conn long_json)
                              messages lstate0)))
       = replicate 110 CHR ''x'' @ [quote] @ ''}''
   \<and> sto (snd (snd (handle_socket_connection stdlib (at_time 7) (listener_conn long_json)
                       messages lstate0))) = sto lstate0"
proof -
  have 1: "conn_recv_raises (listener_conn long_json) = None"
    by (simp add: listener_conn_def)
  have 2: "1024 < length (conn_inbuf (listener_conn long_json))"
    by (simp add: listener_conn_def long_json_def long_text_def)
  have 3: "drop 1024 long_json = replicate 110 CHR ''x'' @ [quote] @ ''}''"
    by (simp add: long_json_def long_text_def)
  note cut = long_payload_is_cut [OF 1 2, of stdlib "at_time 7" messages lstate0]
  have "conn_inbuf (fst (snd (handle_socket_connection stdlib (at_time 7)
          (listener_conn long_json) messages lstate0))) = replicate 110 CHR ''x'' @ [quote] @ ''}''"
    using cut [THEN conjunct1] 3 by (simp add: listener_conn_def)
  moreover have "sto (snd (snd (handle_socket_connection stdlib (at_time 7)
          (listener_conn long_json) messages lstate0))) = sto lstate0"
    using cut [THEN conjunct2, THEN conjunct2] long_json_cut_malformed
    by (simp add: listener_conn_def)
  ultimately show ?thesis
    using 2 long_json_cut_malformed by (simp add: listener_conn_def)
qed

text \<open>
  \<^bold>\<open>C9\<close> (as stated) fails: a JSON object followed by white space, 1102 bytes in all, is
  a JSON text, and so are its first 1024 bytes; the handler inserts a document.
\<close>

theorem padded_payload_is_stored:
  "length padded_json = 1102
   \<and> json_loads stdlib padded_json = Inr (PDict [])
   \<and> sto (snd (snd (handle_socket_connection stdlib (at_time 7) (listener_conn padded_json)
                       messages lstate0))) messages
       = [[(''date'', PDatetime 7)]]"
  by (simp add: padded_json_def std space_run listener lstate0_def at_time_def)

section \<open>Submitting a form twice\<close>

lemma do_POST_delivered:
  assumes "req_path r = ''/message''"
    and "req_headers r ''Content-Length'' = Some cl"
    and "int_of_str L cl = Inr n"
    and "rfile_read r n = Inr body \<and> decode L body = Inr text"
    and "first_param (parse_qs L text) ''username'' = Inr u"
    and "first_param (parse_qs L text) ''message'' = Inr m"
    and "u \<noteq> []" and "m \<noteq> []"
    and "socket_raises net = None" and "connect_raises net = None"
    and "sendall_raises net = None"
    and "json_dumps L (PDict [(''username'', PStr u), (''message'', PStr m)]) = Inr p"
  shows "do_POST L cfg d fs net r hstate0 =
     (None,
      \<lparr>wfile = [Send_response 302, Send_header ''Location'' ''/'', End_headers],
       rfile_reads = [n],
       sock_calls = [Sock_create, Sock_connect (SOCKET_HOST cfg) (SOCKET_PORT cfg),
                     Sock_sendall p, Sock_close],
       http_log = []\<rparr>)"
  unfolding do_POST_valid [OF assms(1-8)] send_to_socket_valid [OF assms(7,8)]
  using assms(9-12)
  by (simp add: redirect_to_home_def deliver_def emit_def sock_def hstate0_def)

lemma submit_delivered:
  assumes "req_path r = ''/message''"
    and "req_headers r ''Content-Length'' = Some cl"
    and "int_of_str L cl = Inr n"
    and "rfile_read r n = Inr body \<and> decode L body = Inr text"
    and "first_param (parse_qs L text) ''username'' = Inr u"
    and "first_param (parse_qs L text) ''message'' = Inr m"
    and "u \<noteq> []" and "m \<noteq> []"
    and "socket_raises net = None" and "connect_raises net = None"
    and "sendall_raises net = None"
    and "json_dumps L (PDict [(''username'', PStr u), (''message'', PStr m)]) = Inr p"
  shows "submit L cfg d fs net env r st =
     ((None,
       \<lparr>wfile = [Send_response 302, Send_header ''Location'' ''/'', End_headers],
        rfile_reads = [n],
        sock_calls = [Sock_create, Sock_connect (SOCKET_HOST cfg) (SOCKET_PORT cfg),
                      Sock_sendall p, Sock_close],
        http_log = []\<rparr>),
      snd (snd (handle_socket_connection L env (listener_conn p)
                  (DB_NAME cfg, COLLECTION_NAME cfg) st)))"
  using assms(11)
  by (simp add: submit_def do_POST_delivered [OF assms] delivered_def receive_all_def)

text \<open>
  \<^bold>\<open>C8\<close> (as amended). A form with non-empty \<^verbatim>\<open>username\<close> and \<^verbatim>\<open>message\<close> whose
  JSON text is at most 1024 bytes and is read back by the listener as the same object,
  submitted twice with the transport delivering and \<^verbatim>\<open>insert_one\<close> not raising: each
  submission makes its own delivery (one connect, one send of the same payload) and appends
  its own document, so the collection grows by two documents, which differ at most in their
  \<^verbatim>\<open>date\<close>.
\<close>

theorem resubmission_stores_two_documents:
  assumes "req_path r = ''/message''"
    and "req_headers r ''Content-Length'' = Some cl"
    and "int_of_str L cl = Inr n"
    and "rfile_read r n = Inr body \<and> decode L body = Inr text"
    and "first_param (parse_qs L text) ''username'' = Inr u"
    and "first_param (parse_qs L text) ''message'' = Inr m"
    and "u \<noteq> []" and "m \<noteq> []"
    and "socket_raises net = None" and "connect_raises net = None"
    and "sendall_raises net = None"
    and "json_dumps L (PDict [(''username'', PStr u), (''message'', PStr m)]) = Inr p"
    and "p \<noteq> []" and "length p \<le> 1024"
    and "decode L p = Inr t"
    and "json_loads L t = Inr (PDict [(''username'', PStr u), (''message'', PStr m)])"
    and "insert_raises env1 = None" and "insert_raises env2 = None"
  shows "sock_calls (snd (fst (submit L cfg d fs net env1 r st)))
           = [Sock_create, Sock_connect (SOCKET_HOST cfg) (SOCKET_PORT cfg), Sock_sendall p,
              Sock_close]
    \<and> sock_calls (snd (fst (submit L cfg d fs net env2 r
                               (snd (submit L cfg d fs net env1 r st)))))
           = [Sock_create, Sock_connect (SOCKET_HOST cfg) (SOCKET_PORT cfg), Sock_sendall p,
              Sock_close]
    \<and> sto (snd (submit L cfg d fs net env2 r (snd (submit L cfg d fs net env1 r st))))
           = (sto st)((DB_NAME cfg, COLLECTION_NAME cfg) :=
                sto st (DB_NAME cfg, COLLECTION_NAME cfg)
                  @ [[(''username'', PStr u), (''message'', PStr m),
                      (''date'', PDatetime (now env1))],
                     [(''username'', PStr u), (''message'', PStr m),
                      (''date'', PDatetime (now env2))]])"
proof -
  have stored: "\<And>env st. insert_raises env = None \<Longrightarrow>
      snd (snd (handle_socket_connection L env (listener_conn p)
                  (DB_NAME cfg, COLLECTION_NAME cfg) st))
        = \<lparr>sto = (sto st)((DB_NAME cfg, COLLECTION_NAME cfg) :=
                    sto st (DB_NAME cfg, COLLECTION_NAME cfg)
                      @ [[(''username'', PStr u), (''message'', PStr m),
                          (''date'', PDatetime (now env))]]),
           listener_log = listener_log st
             @ [Info_saved [(''username'', PStr u), (''message'', PStr m),
                            (''date'', PDatetime (now env))]]\<rparr>"
    using assms(13-16)
    by (simp add: handle_socket_connection_def handle_try_def recv_def insert_one_def llog_def
          close_def listener_conn_def)
  show ?thesis
    using assms(17,18)
    by (simp add: submit_delivered [OF assms(1-12)] stored fun_upd_def fun_eq_iff)
qed

theorem resubmission_stores_two_documents_witness:
  "sto (snd (submit stdlib cfg0 1000 fs0 net_ok (at_time 8) hello_post
               (snd (submit stdlib cfg0 1000 fs0 net_ok (at_time 7) hello_post lstate0))))
     = (\<lambda>coll. [])((''messages_db'', ''messages'') :=
          [[(''username'', PStr ''alice''), (''message'', PStr ''hello''), (''date'', PDatetime 7)],
           [(''username'', PStr ''alice''), (''message'', PStr ''hello''), (''date'', PDatetime 8)]])"
proof -
  have 1: "req_path hello_post = ''/message''"
    and 2: "req_headers hello_post ''Content-Length'' = Some ''28''"
    by (simp_all add: hello_post_def post_def)
  have 3: "int_of_str stdlib ''28'' = Inr 28"
    by (simp add: std)
  have 4: "rfile_read hello_post 28 = Inr ''username=alice&message=hello''
      \<and> decode stdlib ''username=alice&message=hello'' = Inr ''username=alice&message=hello''"
    by (simp add: std hello_post_def post_def rfile_read_def ssize_max_def)
  have 5: "first_param (parse_qs stdlib ''username=alice&message=hello'') ''username''
             = Inr ''alice''"
    and 6: "first_param (parse_qs stdlib ''username=alice&message=hello'') ''message''
             = Inr ''hello''"
    by (simp_all add: std first_param_def)
  have 7: "''alice'' \<noteq> []" and 8: "''hello'' \<noteq> []"
    by simp_all
  have 9: "socket_raises net_ok = None" and 10: "connect_raises net_ok = None"
    and 11: "sendall_raises net_ok = None"
    by (simp_all add: net_ok_def)
  have 12: "json_dumps stdlib (PDict [(''username'', PStr ''alice''), (''message'', PStr ''hello'')])
              = Inr hello_json"
    by (simp add: std hello_json_def)
  have 13: "hello_json \<noteq> []" and 14: "length hello_json \<le> 1024"
    by (simp_all add: hello_json_def)
  have 15: "decode stdlib hello_json = Inr hello_json"
    by (simp add: std hello_json_def)
  have 16: "json_loads stdlib hello_json
              = Inr (PDict [(''username'', PStr ''alice''), (''message'', PStr ''hello'')])"
    by (simp add: std hello_json_def)
  have 17: "insert_raises (at_time 7) = None" and 18: "insert_raises (at_time 8) = None"
    by (simp_all add: at_time_def)
  show ?thesis
    using resubmission_stores_two_documents
            [OF 1 2 3 4 5 6 7 8 9 10 11 12 13 14 15 16 17 18, of cfg0 1000 fs0 lstate0,
             THEN conjunct2, THEN conjunct2]
    by (simp add: cfg0_def lstate0_def at_time_def)
qed

lemma long_post_sends:
  "do_POST stdlib cfg0 1000 fs0 net_ok long_post hstate0 =
     (None,
      \<lparr>wfile = [Send_response 302, Send_header ''Location'' ''/'', End_headers],
       rfile_reads = [1123],
       sock_calls = [Sock_create, Sock_connect ''localhost'' 5000, Sock_sendall long_json,
                     Sock_close],
       http_log = []\<rparr>)"
proof -
  have 1: "req_path long_post = ''/message''"
    and 2: "req_headers long_post ''Content-Length'' = Some ''1123''"
    by (simp_all add: long_post_def post_def)
  have 3: "int_of_str stdlib ''1123'' = Inr 1123"
    by (simp add: std)
  have 4: "rfile_read long_post 1123 = Inr (''username=alice&message='' @ long_text)
      \<and> decode stdlib (''username=alice&message='' @ long_text)
          = Inr (''username=alice&message='' @ long_text)"
    by (simp add: std long_post_def post_def rfile_read_def ssize_max_def long_text_def x_run)
  have 5: "first_param (parse_qs stdlib (''username=alice&message='' @ long_text)) ''username''
             = Inr ''alice''"
    and 6: "first_param (parse_qs stdlib (''username=alice&message='' @ long_text)) ''message''
             = Inr long_text"
    by (simp_all add: std first_param_def long_text_def x_run)
  have 7: "''alice'' \<noteq> []" and 8: "long_text \<noteq> []"
    by (simp_all add: long_text_def)
  have 9: "socket_raises net_ok = None" and 10: "connect_raises net_ok = None"
    and 11: "sendall_raises net_ok = None"
    by (simp_all add: net_ok_def)
  have 12: "json_dumps stdlib (PDict [(''username'', PStr ''alice''), (''message'', PStr long_text)])
              = Inr long_json"
    using dumps_long by (simp add: stdlib_def)
  show ?thesis
    using do_POST_delivered [OF 1 2 3 4 5 6 7 8 9 10 11 12, of cfg0 1000 fs0]
    by (simp add: cfg0_def)
qed

lemma long_json_dropped:
  "sto (snd (snd (handle_socket_connection stdlib env (listener_conn long_json) coll st))) = sto st"
proof -
  obtain e where "handle_try stdlib env (listener_conn long_json) coll st
      = (Some e, (listener_conn long_json)\<lparr>conn_inbuf := drop 1024 long_json\<rparr>, st)"
    using handle_try_malformed [of "listener_conn long_json" stdlib env coll st]
      long_json_cut_malformed
    by (auto simp: listener_conn_def)
  then show ?thesis
    by (simp add: handle_socket_connection_def llog_def)
qed

text \<open>
  \<^bold>\<open>C8\<close> (as stated) fails: a form with a message of 1100 characters is delivered at
  each submission, but its JSON text has 1136 bytes; the listener reads 1024 of them, they do
  not parse, and after two submissions the storage holds no document.
\<close>

theorem long_form_twice_stores_nothing:
  "sock_calls (snd (fst (submit stdlib cfg0 1000 fs0 net_ok (at_time 7) long_post lstate0)))
     = [Sock_create, Sock_connect ''localhost'' 5000, Sock_sendall long_json, Sock_close]
   \<and> length long_json = 1136
   \<and> sto (snd (submit stdlib cfg0 1000 fs0 net_ok (at_time 8) long_post
                  (snd (submit stdlib cfg0 1000 fs0 net_ok (at_time 7) long_post lstate0))))
       = (\<lambda>coll. [])"
proof -
  have net: "sendall_raises net_ok = None"
    by (simp add: net_ok_def)
  have sub: "\<And>env st. submit stdlib cfg0 1000 fs0 net_ok env long_post st =
     (do_POST stdlib cfg0 1000 fs0 net_ok long_post hstate0,
      snd (snd (handle_socket_connection stdlib env (listener_conn long_json)
                  (DB_NAME cfg0, COLLECTION_NAME cfg0) st)))"
    by (simp add: submit_def long_post_sends delivered_def receive_all_def net)
  have len: "length long_json = 1136"
    by (simp add: long_json_def long_text_def)
  show ?thesis
    by (simp add: sub long_post_sends long_json_dropped len lstate0_def)
qed

end
